theory Spec2Isabelle
  imports
    Complex_Main
    "HOL-Library.Stream"
    "HOL-Library.Char_ord"
    "HOL-Library.List_Lexorder"
    "HOL-Library.Product_Lexorder"
begin

section \<open>SVG art grid generator: a shallow embedding\<close>

text \<open>
  The two programs \<^verbatim>\<open>SVG_ArtGrid.py\<close> and \<^verbatim>\<open>SVGArtGridV2.py\<close> share, line for line,
  the functions \<^verbatim>\<open>create_background_colors\<close>, \<^verbatim>\<open>get_two_colors\<close>, the eight
  \<^verbatim>\<open>draw_*\<close> functions, \<^verbatim>\<open>generate_little_block\<close>, \<^verbatim>\<open>generate_grid\<close> and
  \<^verbatim>\<open>generate_big_block\<close>; they are embedded once. The second program adds the image
  functions and has its own \<^verbatim>\<open>main\<close>.

  Python's effects are explicit. A \<open>world\<close> holds the process-wide random source of the
  \<^verbatim>\<open>random\<close> module, the list objects allocated so far (so that a copy of a list and the
  list itself are different objects) and the one \<^verbatim>\<open>svgwrite.Drawing\<close> the program
  creates. Every function that raises, draws a random number or mutates an object is a
  function from a world to a result, an exception or a value, and the world it leaves.
\<close>

subsection \<open>Exceptions\<close>

text \<open>
  The source defines no exception class of its own; every failure is an uncaught built-in
  exception. \<open>OSError\<close> stands for any failure to read a file or fetch a URL.
\<close>

datatype error = ValueError | IndexError | KeyError | ZeroDivisionError | OSError

subsection \<open>The drawing\<close>

text \<open>
  Coordinates are Python ints or floats (\<^verbatim>\<open>x + square_size/2\<close>); both are embedded in
  \<open>real\<close>, so the rounding of floats is not modelled.
\<close>

type_synonym point = "real \<times> real"

datatype element =
    Rect point point string
  | Circle point real string
  | Polygon "point list" string
  | Path "string list" string
  | Text string point string real string string string
  | Group "string option" "string option" "element list"

datatype svg_def =
    Style string
  | Mask string "element list"
  | RadialGradient string "(nat \<times> string) list"

record drawing =
  filename :: string
  doc_size :: "string \<times> string"
  profile :: string
  defs :: "svg_def list"
  elements :: "element list"

subsection \<open>The world and the monad of effects\<close>

type_synonym addr = nat

record world =
  rng :: "nat stream"
  heap :: "addr \<Rightarrow> string list"
  next_addr :: addr
  dwg :: drawing

type_synonym 'a M = "world \<Rightarrow> (error + 'a) \<times> world"

definition return :: "'a \<Rightarrow> 'a M" where
  "return a s = (Inr a, s)"

definition raise :: "error \<Rightarrow> 'a M" where
  "raise e s = (Inl e, s)"

definition bindM :: "'a M \<Rightarrow> ('a \<Rightarrow> 'b M) \<Rightarrow> 'b M" where
  "bindM m f s = (case m s of (Inl e, s') \<Rightarrow> (Inl e, s') | (Inr a, s') \<Rightarrow> f a s')"

definition lift :: "error + 'a \<Rightarrow> 'a M" where
  "lift r s = (r, s)"

text \<open>A \<^verbatim>\<open>for\<close> loop over a finite sequence; an exception in the body ends it.\<close>

fun for_each :: "'a list \<Rightarrow> ('a \<Rightarrow> unit M) \<Rightarrow> unit M" where
  "for_each [] body = return ()"
| "for_each (x # xs) body = bindM (body x) (\<lambda>_. for_each xs body)"

text \<open>\<^verbatim>\<open>range(n)\<close> for an int \<open>n\<close>: empty when \<open>n \<le> 0\<close>.\<close>

definition py_range :: "int \<Rightarrow> int list" where
  "py_range n = map int [0..<nat n]"

definition dwg_add :: "element \<Rightarrow> unit M" where
  "dwg_add e s = (Inr (), s\<lparr>dwg := (dwg s)\<lparr>elements := elements (dwg s) @ [e]\<rparr>\<rparr>)"

definition defs_add :: "svg_def \<Rightarrow> unit M" where
  "defs_add d s = (Inr (), s\<lparr>dwg := (dwg s)\<lparr>defs := defs (dwg s) @ [d]\<rparr>\<rparr>)"

subsection \<open>The \<^verbatim>\<open>random\<close> module\<close>

text \<open>
  The generator itself (a Mersenne Twister) is library code. Its state is represented by
  the stream of raw numbers it is still going to produce; each call of a library function
  takes the next one. \<^verbatim>\<open>randint(a, b)\<close> returns \<open>a + r mod (b - a + 1)\<close>, so every value
  of \<open>a..b\<close> is returned for some stream and no other value ever is, and raises
  \<^verbatim>\<open>ValueError\<close> on an empty range without drawing; \<^verbatim>\<open>choice\<close> raises \<^verbatim>\<open>IndexError\<close>
  on an empty sequence; \<^verbatim>\<open>random()\<close> returns a multiple of \<open>2\<^sup>-\<^sup>5\<^sup>3\<close> in \<open>[0, 1)\<close>.
\<close>

definition random_randint :: "int \<Rightarrow> int \<Rightarrow> int M" where
  "random_randint a b s =
     (if 0 < b - a + 1
      then (Inr (a + int (shd (rng s) mod nat (b - a + 1))), s\<lparr>rng := stl (rng s)\<rparr>)
      else (Inl ValueError, s))"

definition random_choice :: "'a list \<Rightarrow> 'a M" where
  "random_choice seq s =
     (if seq = [] then (Inl IndexError, s)
      else (Inr (seq ! (shd (rng s) mod length seq)), s\<lparr>rng := stl (rng s)\<rparr>))"

definition random_random :: "real M" where
  "random_random s =
     (Inr (real (shd (rng s) mod 2 ^ 53) / 2 ^ 53), s\<lparr>rng := stl (rng s)\<rparr>)"

subsection \<open>List objects\<close>

text \<open>
  A list object is an address; the heap gives its current contents. \<open>list_new\<close> allocates
  at the next free address. Indexing and \<^verbatim>\<open>pop\<close> accept negative indices and raise
  \<^verbatim>\<open>IndexError\<close> out of range, as Python does.
\<close>

definition list_new :: "string list \<Rightarrow> addr M" where
  "list_new xs s =
     (Inr (next_addr s), s\<lparr>heap := (heap s)(next_addr s := xs), next_addr := Suc (next_addr s)\<rparr>)"

definition list_read :: "addr \<Rightarrow> string list M" where
  "list_read a s = (Inr (heap s a), s)"

definition list_copy :: "addr \<Rightarrow> addr M" where
  "list_copy a = bindM (list_read a) list_new"

definition list_len :: "addr \<Rightarrow> int M" where
  "list_len a = bindM (list_read a) (\<lambda>xs. return (int (length xs)))"

definition norm_index :: "'a list \<Rightarrow> int \<Rightarrow> nat option" where
  "norm_index xs i =
     (if 0 \<le> i \<and> i < int (length xs) then Some (nat i)
      else if i < 0 \<and> - int (length xs) \<le> i then Some (nat (int (length xs) + i))
      else None)"

definition getitem :: "'a list \<Rightarrow> int \<Rightarrow> error + 'a" where
  "getitem xs i = (case norm_index xs i of None \<Rightarrow> Inl IndexError | Some j \<Rightarrow> Inr (xs ! j))"

definition list_getitem :: "addr \<Rightarrow> int \<Rightarrow> string M" where
  "list_getitem a i = bindM (list_read a) (\<lambda>xs. lift (getitem xs i))"

definition list_pop :: "addr \<Rightarrow> int \<Rightarrow> string M" where
  "list_pop a i s =
     (case norm_index (heap s a) i of
        None \<Rightarrow> (Inl IndexError, s)
      | Some j \<Rightarrow> (Inr (heap s a ! j),
                   s\<lparr>heap := (heap s)(a := take j (heap s a) @ drop (Suc j) (heap s a))\<rparr>))"

subsection \<open>Formatting\<close>

text \<open>\<^verbatim>\<open>f"{n}"\<close> for an int: its decimal digits, with a minus sign when negative.\<close>

fun digits10 :: "nat \<Rightarrow> string" where
  "digits10 n =
     (if n < 10 then [''0123456789'' ! n]
      else digits10 (n div 10) @ [''0123456789'' ! (n mod 10)])"

declare digits10.simps [simp del]

definition str_int :: "int \<Rightarrow> string" where
  "str_int n = (if n < 0 then CHR ''-'' # digits10 (nat (- n)) else digits10 (nat n))"

subsection \<open>The block styles\<close>

text \<open>
  Each style adds one group to the drawing: the background rectangle, then the
  foreground shape, whose variant is drawn from the random source.
\<close>

definition draw_circle :: "int \<Rightarrow> int \<Rightarrow> int \<Rightarrow> string \<Rightarrow> string \<Rightarrow> unit M" where
  "draw_circle x y square_size foreground background =
     (let group = [Rect (x, y) (square_size, square_size) background,
                   Circle (x + square_size / 2, y + square_size / 2) (square_size / 2) foreground]
      in bindM random_random (\<lambda>r.
         dwg_add (Group (Some ''draw-circle'') None
           (if r < 0.3
            then group @ [Circle (x + square_size / 2, y + square_size / 2) (square_size / 4)
                            background]
            else group))))"

definition draw_opposite_circles ::
    "int \<Rightarrow> int \<Rightarrow> int \<Rightarrow> string \<Rightarrow> string \<Rightarrow> unit M" where
  "draw_opposite_circles x y square_size foreground background =
     (let mask_id = ''mask-'' @ str_int x @ ''-'' @ str_int y;
          options = [[0, 0, square_size, square_size], [square_size, 0, 0, square_size]]
      in bindM (defs_add (Mask mask_id [Rect (x, y) (square_size, square_size) ''white''])) (\<lambda>_.
         bindM (random_choice options) (\<lambda>offset.
         let circle1 = Circle (x + offset ! 0, y + offset ! 1) (square_size / 2) foreground;
             circle2 = Circle (x + offset ! 2, y + offset ! 3) (square_size / 2) foreground;
             circle_group = Group None (Some (''url(#'' @ mask_id @ '')'')) [circle1, circle2]
         in dwg_add (Group (Some ''opposite-circles'') None
              [Rect (x, y) (square_size, square_size) background, circle_group]))))"

text \<open>
  The four corners of a thick line from \<open>(x1, y1)\<close> to \<open>(x2, y2)\<close>: the block of
  statements that \<^verbatim>\<open>draw_cross\<close> writes out once for each diagonal. Dividing by a zero
  length raises \<^verbatim>\<open>ZeroDivisionError\<close>.
\<close>

definition thick_line :: "int \<times> int \<Rightarrow> int \<times> int \<Rightarrow> real \<Rightarrow> error + point list" where
  "thick_line p q width =
     (let x1 = fst p; y1 = snd p; x2 = fst q; y2 = snd q;
          dx = x2 - x1; dy = y2 - y1;
          length = sqrt (real_of_int (dx ^ 2 + dy ^ 2))
      in if length = 0 then Inl ZeroDivisionError
         else let nx = - real_of_int dy / length; ny = real_of_int dx / length
              in Inr [(x1 + nx * width / 2, y1 + ny * width / 2),
                      (x2 + nx * width / 2, y2 + ny * width / 2),
                      (x2 - nx * width / 2, y2 - ny * width / 2),
                      (x1 - nx * width / 2, y1 - ny * width / 2)])"

definition draw_cross :: "int \<Rightarrow> int \<Rightarrow> int \<Rightarrow> string \<Rightarrow> string \<Rightarrow> unit M" where
  "draw_cross x y square_size foreground background =
     (let bg = Rect (x, y) (square_size, square_size) background
      in bindM random_random (\<lambda>r.
         let is_plus = (r < 0.5)
         in if is_plus
            then dwg_add (Group (Some ''draw-cross'') None
                   [bg,
                    Rect (x, y + square_size / 3) (square_size, square_size / 3) foreground,
                    Rect (x + square_size / 3, y) (square_size / 3, square_size) foreground])
            else let width = square_size / 6
                 in bindM (lift (thick_line (x, y) (x + square_size, y + square_size) width))
                      (\<lambda>line1.
                    bindM (lift (thick_line (x + square_size, y) (x, y + square_size) width))
                      (\<lambda>line2.
                    dwg_add (Group (Some ''draw-cross'') None
                      [bg, Polygon line1 foreground, Polygon line2 foreground])))))"

definition draw_half_square :: "int \<Rightarrow> int \<Rightarrow> int \<Rightarrow> string \<Rightarrow> string \<Rightarrow> unit M" where
  "draw_half_square x y square_size foreground background =
     bindM (random_choice [''top'', ''right'', ''bottom'', ''left'']) (\<lambda>direction.
     let points =
           (if direction = ''top''
            then [(x, y), (x + square_size, y), (x + square_size, y + square_size / 2),
                  (x, y + square_size / 2)]
            else if direction = ''right''
            then [(x + square_size / 2, y), (x + square_size, y),
                  (x + square_size, y + square_size), (x + square_size / 2, y + square_size)]
            else if direction = ''bottom''
            then [(x, y + square_size / 2), (x + square_size, y + square_size / 2),
                  (x + square_size, y + square_size), (x, y + square_size)]
            else [(x, y), (x + square_size / 2, y), (x + square_size / 2, y + square_size),
                  (x, y + square_size)])
     in dwg_add (Group (Some ''draw-half-square'') None
          [Rect (x, y) (square_size, square_size) background, Polygon points foreground]))"

definition draw_diagonal_square ::
    "int \<Rightarrow> int \<Rightarrow> int \<Rightarrow> string \<Rightarrow> string \<Rightarrow> unit M" where
  "draw_diagonal_square x y square_size foreground background =
     bindM random_random (\<lambda>r.
     let is_top_left_to_bottom_right = (r < 0.5);
         points =
           (if is_top_left_to_bottom_right
            then [(x, y), (x + square_size, y + square_size), (x, y + square_size)]
            else [(x + square_size, y), (x + square_size, y + square_size), (x, y)])
     in dwg_add (Group (Some ''draw-diagonal-square'') None
          [Rect (x, y) (square_size, square_size) background, Polygon points foreground]))"

definition draw_quarter_circle ::
    "int \<Rightarrow> int \<Rightarrow> int \<Rightarrow> string \<Rightarrow> string \<Rightarrow> unit M" where
  "draw_quarter_circle x y square_size foreground background =
     bindM (random_choice [''top-left'', ''top-right'', ''bottom-right'', ''bottom-left''])
       (\<lambda>corner.
     let X = str_int x; Y = str_int y; S = str_int square_size;
         XS = str_int (x + square_size); YS = str_int (y + square_size);
         path =
           (if corner = ''top-left''
            then [''M '' @ X @ '' '' @ Y,
                  ''A '' @ S @ '' '' @ S @ '' 0 0 1 '' @ XS @ '' '' @ Y,
                  ''L '' @ X @ '' '' @ Y]
            else if corner = ''top-right''
            then [''M '' @ XS @ '' '' @ Y,
                  ''A '' @ S @ '' '' @ S @ '' 0 0 1 '' @ XS @ '' '' @ YS,
                  ''L '' @ XS @ '' '' @ Y]
            else if corner = ''bottom-right''
            then [''M '' @ XS @ '' '' @ YS,
                  ''A '' @ S @ '' '' @ S @ '' 0 0 1 '' @ X @ '' '' @ YS,
                  ''L '' @ XS @ '' '' @ YS]
            else [''M '' @ X @ '' '' @ YS,
                  ''A '' @ S @ '' '' @ S @ '' 0 0 1 '' @ X @ '' '' @ Y,
                  ''L '' @ X @ '' '' @ YS])
     in dwg_add (Group (Some ''draw-quarter-circle'') None
          [Rect (x, y) (square_size, square_size) background, Path path foreground]))"

definition draw_dots :: "int \<Rightarrow> int \<Rightarrow> int \<Rightarrow> string \<Rightarrow> string \<Rightarrow> unit M" where
  "draw_dots x y square_size foreground background =
     bindM (random_choice [4, 9, 16 :: int]) (\<lambda>num_dots.
     let rows = (if num_dots = 4 then 2 else if num_dots = 9 then 3 else 4 :: int);
         cols = rows;
         cell_size = square_size / rows;
         dot_radius = cell_size * 0.3;
         dots = concat (map (\<lambda>i. map (\<lambda>j.
                  Circle (x + (i + 0.5) * cell_size, y + (j + 0.5) * cell_size) dot_radius
                    foreground) (py_range cols)) (py_range rows))
     in dwg_add (Group (Some ''draw-dots'') None
          (Rect (x, y) (square_size, square_size) background # dots)))"

definition characters :: "string list" where
  "characters =
     map (\<lambda>c. [c]) (''ABCDEFGHIJKLMNOPQRSTUVWXYZ'' @ ''0123456789'' @ ''+-*/=#@&%$'')"

definition draw_letter_block ::
    "int \<Rightarrow> int \<Rightarrow> int \<Rightarrow> string \<Rightarrow> string \<Rightarrow> unit M" where
  "draw_letter_block x y square_size foreground background =
     bindM (random_choice characters) (\<lambda>character.
     dwg_add (Group (Some ''draw-letter-block'') None
       [Rect (x, y) (square_size, square_size) background,
        Text character (x + square_size / 2, y + square_size / 2 + square_size * 0.3)
          ''monospace'' (square_size * 0.8) ''bold'' foreground ''middle'']))"

subsection \<open>\<^verbatim>\<open>get_two_colors\<close>\<close>

record colors =
  foreground :: string
  background :: string

definition get_two_colors :: "addr \<Rightarrow> colors M" where
  "get_two_colors color_palette =
     bindM (list_copy color_palette) (\<lambda>color_list.
     bindM (list_len color_list) (\<lambda>n.
     bindM (random_randint 0 (n - 1)) (\<lambda>color_index.
     bindM (list_getitem color_list color_index) (\<lambda>background.
     bindM (list_pop color_list color_index) (\<lambda>_.
     bindM (list_read color_list) (\<lambda>rest.
     bindM (random_choice rest) (\<lambda>foreground.
     return \<lparr>foreground = foreground, background = background\<rparr>)))))))"

subsection \<open>The grid and the focal block\<close>

type_synonym style_func = "int \<Rightarrow> int \<Rightarrow> int \<Rightarrow> string \<Rightarrow> string \<Rightarrow> unit M"

text \<open>
  A \<^verbatim>\<open>dict\<close> literal is the list of its items in insertion order; \<^verbatim>\<open>d[k]\<close> raises
  \<^verbatim>\<open>KeyError\<close> for a missing key.
\<close>

definition dict_keys :: "('k \<times> 'v) list \<Rightarrow> 'k list" where
  "dict_keys d = map fst d"

definition dict_contains :: "('k \<times> 'v) list \<Rightarrow> 'k \<Rightarrow> bool" where
  "dict_contains d k = (k \<in> set (dict_keys d))"

definition dict_getitem :: "('k \<times> 'v) list \<Rightarrow> 'k \<Rightarrow> error + 'v" where
  "dict_getitem d k = (case map_of d k of None \<Rightarrow> Inl KeyError | Some v \<Rightarrow> Inr v)"

text \<open>The \<^verbatim>\<open>style_map\<close> of \<^verbatim>\<open>generate_little_block\<close>.\<close>

definition style_map :: "(string \<times> style_func) list" where
  "style_map =
     [(''circle'', draw_circle),
      (''opposite_circles'', draw_opposite_circles),
      (''cross'', draw_cross),
      (''half_square'', draw_half_square),
      (''diagonal_square'', draw_diagonal_square),
      (''quarter_circle'', draw_quarter_circle),
      (''dots'', draw_dots),
      (''letter_block'', draw_letter_block)]"

text \<open>The \<^verbatim>\<open>style_map\<close> of \<^verbatim>\<open>generate_big_block\<close>, which has no entry for the dots.\<close>

definition big_style_map :: "(string \<times> style_func) list" where
  "big_style_map =
     [(''circle'', draw_circle),
      (''opposite_circles'', draw_opposite_circles),
      (''cross'', draw_cross),
      (''half_square'', draw_half_square),
      (''diagonal_square'', draw_diagonal_square),
      (''quarter_circle'', draw_quarter_circle),
      (''letter_block'', draw_letter_block)]"

definition generate_little_block ::
    "int \<Rightarrow> int \<Rightarrow> int \<Rightarrow> addr \<Rightarrow> string list \<Rightarrow> unit M" where
  "generate_little_block i j square_size color_palette block_styles =
     bindM (get_two_colors color_palette) (\<lambda>colors.
     let available_styles0 = filter (\<lambda>style. dict_contains style_map style) block_styles;
         available_styles =
           (if available_styles0 = [] then dict_keys style_map else available_styles0)
     in bindM (random_choice available_styles) (\<lambda>style_name.
        bindM (lift (dict_getitem style_map style_name)) (\<lambda>style_func.
        let x_pos = i * square_size;
            y_pos = j * square_size
        in style_func x_pos y_pos square_size (foreground colors) (background colors))))"

definition generate_grid :: "int \<Rightarrow> int \<Rightarrow> int \<Rightarrow> addr \<Rightarrow> string list \<Rightarrow> unit M" where
  "generate_grid num_rows num_cols square_size color_palette block_styles =
     for_each (py_range num_rows) (\<lambda>i.
       for_each (py_range num_cols) (\<lambda>j.
         generate_little_block i j square_size color_palette block_styles))"

text \<open>The styles the focal block chooses from: the filter and its fallback.\<close>

definition big_available_styles :: "string list \<Rightarrow> string list" where
  "big_available_styles block_styles =
     (let available_styles =
            filter (\<lambda>style. dict_contains big_style_map style \<and> style \<noteq> ''dots'') block_styles
      in if available_styles = []
         then (let keys = dict_keys big_style_map
               in if ''dots'' \<in> set keys then remove1 ''dots'' keys else keys)
         else available_styles)"

definition generate_big_block ::
    "int \<Rightarrow> int \<Rightarrow> int \<Rightarrow> addr \<Rightarrow> string list \<Rightarrow> int \<Rightarrow> unit M" where
  "generate_big_block num_rows num_cols square_size color_palette block_styles multiplier =
     bindM (get_two_colors color_palette) (\<lambda>colors.
     let available_styles = big_available_styles block_styles
     in bindM (random_randint 0 (num_rows - multiplier)) (\<lambda>rx.
        let x_pos = rx * square_size
        in bindM (random_randint 0 (num_cols - multiplier)) (\<lambda>ry.
           let y_pos = ry * square_size;
               big_square_size = multiplier * square_size
           in bindM (random_choice available_styles) (\<lambda>style_name.
              bindM (lift (dict_getitem big_style_map style_name)) (\<lambda>style_func.
              style_func x_pos y_pos big_square_size (foreground colors)
                (background colors))))))"

subsection \<open>Hexadecimal colours\<close>

text \<open>
  \<^verbatim>\<open>int(s, 16)\<close>, as far as the source uses it: on a slice of at most two characters,
  where it accepts surrounding whitespace, one sign and then hexadecimal digits of either
  case, and raises \<^verbatim>\<open>ValueError\<close> for anything else. Characters are ASCII here.
\<close>

definition hex_value :: "char \<Rightarrow> nat option" where
  "hex_value c =
     map_of (zip ''0123456789abcdefABCDEF''
               [0, 1, 2, 3, 4, 5, 6, 7, 8, 9, 10, 11, 12, 13, 14, 15, 10, 11, 12, 13, 14, 15]) c"

fun hex_digits :: "nat \<Rightarrow> string \<Rightarrow> nat option" where
  "hex_digits acc [] = Some acc"
| "hex_digits acc (c # cs) =
     (case hex_value c of None \<Rightarrow> None | Some v \<Rightarrow> hex_digits (16 * acc + v) cs)"

definition is_space :: "char \<Rightarrow> bool" where
  "is_space c =
     (c \<in> set [CHR '' '', CHR 0x09, CHR 0x0A, CHR 0x0B, CHR 0x0C, CHR 0x0D,
                 CHR 0x1C, CHR 0x1D, CHR 0x1E, CHR 0x1F])"

definition strip :: "string \<Rightarrow> string" where
  "strip s = rev (dropWhile is_space (rev (dropWhile is_space s)))"

definition int16 :: "string \<Rightarrow> error + int" where
  "int16 s =
     (let t = strip s;
          neg = (t \<noteq> [] \<and> hd t = CHR ''-'');
          u = (if t \<noteq> [] \<and> (hd t = CHR ''-'' \<or> hd t = CHR ''+'') then tl t else t)
      in if u = [] then Inl ValueError
         else case hex_digits 0 u of
                None \<Rightarrow> Inl ValueError
              | Some v \<Rightarrow> Inr (if neg then - int v else int v))"

text \<open>\<^verbatim>\<open>tuple(int(color[i:i+2], 16) for i in (0, 2, 4))\<close>\<close>

definition hex_to_rgb :: "string \<Rightarrow> (int \<times> int \<times> int) M" where
  "hex_to_rgb color =
     bindM (lift (int16 (take 2 color))) (\<lambda>r.
     bindM (lift (int16 (take 2 (drop 2 color)))) (\<lambda>g.
     bindM (lift (int16 (take 2 (drop 4 color)))) (\<lambda>b.
     return (r, g, b))))"

text \<open>\<^verbatim>\<open>f"{n:02x}"\<close>: lower-case hexadecimal digits, padded with a zero to two characters.\<close>

fun digits16 :: "nat \<Rightarrow> string" where
  "digits16 n =
     (if n < 16 then [''0123456789abcdef'' ! n]
      else digits16 (n div 16) @ [''0123456789abcdef'' ! (n mod 16)])"

declare digits16.simps [simp del]

definition hex02 :: "int \<Rightarrow> string" where
  "hex02 n =
     (if n < 0 then CHR ''-'' # digits16 (nat (- n))
      else if n < 16 then CHR ''0'' # digits16 (nat n)
      else digits16 (nat n))"

definition rgb_hex :: "int \<times> int \<times> int \<Rightarrow> string" where
  "rgb_hex c = (case c of (r, g, b) \<Rightarrow> ''#'' @ hex02 r @ hex02 g @ hex02 b)"

text \<open>\<^verbatim>\<open>int(x)\<close> for a float: truncation towards zero.\<close>

definition trunc :: "real \<Rightarrow> int" where
  "trunc x = (if 0 \<le> x then \<lfloor>x\<rfloor> else \<lceil>x\<rceil>)"

subsection \<open>The environment\<close>

text \<open>
  What the program takes from outside its source: the seeding of the generator
  (\<^verbatim>\<open>random.seed\<close>), the palette catalogue read from a file or fetched from a URL, and
  the two conversions of the \<^verbatim>\<open>colorsys\<close> module.
\<close>

type_synonym triple = "real \<times> real \<times> real"

record env =
  random_seed :: "int \<Rightarrow> nat stream"
  json_load_file :: "string \<Rightarrow> error + string list list"
  requests_get_json :: "string \<Rightarrow> error + string list list"
  rgb_to_hls :: "triple \<Rightarrow> error + triple"
  hls_to_rgb :: "triple \<Rightarrow> error + triple"

subsection \<open>\<^verbatim>\<open>create_background_colors\<close>\<close>

text \<open>The even blend of two colours: each channel is the floor of the mean.\<close>

definition mix :: "int \<times> int \<times> int \<Rightarrow> int \<times> int \<times> int \<Rightarrow> int \<times> int \<times> int" where
  "mix c1 c2 =
     (case c1 of (r1, g1, b1) \<Rightarrow> case c2 of (r2, g2, b2) \<Rightarrow>
        ((r1 + r2) div 2, (g1 + g2) div 2, (b1 + b2) div 2))"

definition lstrip_hash :: "string \<Rightarrow> string" where
  "lstrip_hash s = dropWhile (\<lambda>c. c = CHR ''#'') s"

definition to_unit :: "int \<times> int \<times> int \<Rightarrow> triple" where
  "to_unit c = (case c of (r, g, b) \<Rightarrow> (r / 255, g / 255, b / 255))"

definition to_bytes :: "triple \<Rightarrow> int \<times> int \<times> int" where
  "to_bytes c = (case c of (r, g, b) \<Rightarrow> (trunc (r * 255), trunc (g * 255), trunc (b * 255)))"

record bg_colors =
  bg_inner :: string
  bg_outer :: string

definition create_background_colors :: "'e env_scheme \<Rightarrow> addr \<Rightarrow> bg_colors M" where
  "create_background_colors env color_palette =
     bindM (list_getitem color_palette 0) (\<lambda>c0.
     bindM (list_getitem color_palette 1) (\<lambda>c1.
     let color1 = lstrip_hash c0;
         color2 = lstrip_hash c1
     in bindM (hex_to_rgb color1) (\<lambda>rgb1.
        bindM (hex_to_rgb color2) (\<lambda>rgb2.
        bindM (lift (rgb_to_hls env (to_unit (mix rgb1 rgb2)))) (\<lambda>(h, l, s).
        let s = max 0 (s - 0.1)
        in bindM (lift (hls_to_rgb env (h, l, s))) (\<lambda>rgb.
           let bg = to_bytes rgb
           in bindM (lift (rgb_to_hls env (to_unit bg))) (\<lambda>(h, l, s).
              let l_light = min 1 (l + 0.1)
              in bindM (lift (hls_to_rgb env (h, l_light, s))) (\<lambda>light.
                 let l_dark = max 0 (l - 0.1)
                 in bindM (lift (hls_to_rgb env (h, l_dark, s))) (\<lambda>dark.
                    return \<lparr>bg_inner = rgb_hex (to_bytes light),
                            bg_outer = rgb_hex (to_bytes dark)\<rparr>)))))))))"

subsection \<open>The first program: \<^verbatim>\<open>SVG_ArtGrid.py\<close>\<close>

text \<open>
  The parsed command line. \<^verbatim>\<open>if palette_file:\<close> and \<^verbatim>\<open>if args.block_styles:\<close> test
  truth: \<^verbatim>\<open>None\<close> and the empty string are both false.
\<close>

record args =
  arg_rows :: "int option"
  arg_cols :: "int option"
  arg_square_size :: int
  arg_output :: string
  arg_seed :: "int option"
  arg_palette_file :: "string option"
  arg_palette_index :: "int option"
  arg_big_block :: bool
  arg_big_block_size :: "int option"
  arg_block_styles :: "string option"

definition truthy :: "string option \<Rightarrow> bool" where
  "truthy v = (case v of None \<Rightarrow> False | Some t \<Rightarrow> t \<noteq> [])"

fun alloc_all :: "string list list \<Rightarrow> addr list M" where
  "alloc_all [] = return []"
| "alloc_all (xs # xss) =
     bindM (list_new xs) (\<lambda>a. bindM (alloc_all xss) (\<lambda>as. return (a # as)))"

text \<open>The catalogue is a list of list objects: each palette is allocated as it is loaded.\<close>

definition load_color_palettes :: "'e env_scheme \<Rightarrow> string option \<Rightarrow> addr list M" where
  "load_color_palettes env palette_file =
     (case (if truthy palette_file then palette_file else None) of
        Some file \<Rightarrow> bindM (lift (json_load_file env file)) alloc_all
      | None \<Rightarrow> bindM (lift (requests_get_json env
                    ''https://unpkg.com/nice-color-palettes@3.0.0/100.json'')) alloc_all)"

text \<open>\<^verbatim>\<open>s.split(',')\<close>\<close>

fun split_comma :: "string \<Rightarrow> string list" where
  "split_comma [] = [[]]"
| "split_comma (c # cs) =
     (if c = CHR '','' then [] # split_comma cs
      else case split_comma cs of
             w # ws \<Rightarrow> (c # w) # ws
           | [] \<Rightarrow> [[c]])"

definition all_styles :: "string list" where
  "all_styles =
     [''circle'', ''opposite_circles'', ''cross'', ''half_square'', ''diagonal_square'',
      ''quarter_circle'', ''dots'', ''letter_block'']"

definition seed_rng :: "'e env_scheme \<Rightarrow> int \<Rightarrow> unit M" where
  "seed_rng env sd s = (Inr (), s\<lparr>rng := random_seed env sd\<rparr>)"

text \<open>\<^verbatim>\<open>svgwrite.Drawing(filename, size=..., profile=...)\<close>: a new, empty drawing.\<close>

definition new_drawing :: "string \<Rightarrow> string \<times> string \<Rightarrow> string \<Rightarrow> unit M" where
  "new_drawing name sz prof s =
     (Inr (), s\<lparr>dwg := \<lparr>filename = name, doc_size = sz, profile = prof, defs = [],
                            elements = []\<rparr>\<rparr>)"

text \<open>
  The drawing is written out by \<^verbatim>\<open>dwg.save()\<close> as the last step; the file system and
  the messages printed are outside the model, so the document is the drawing of the world
  that \<open>main\<close> leaves.
\<close>

definition main :: "'e env_scheme \<Rightarrow> args \<Rightarrow> unit M" where
  "main env args =
     bindM (case arg_seed args of None \<Rightarrow> return () | Some sd \<Rightarrow> seed_rng env sd) (\<lambda>_.
     bindM (case arg_rows args of Some r \<Rightarrow> return r | None \<Rightarrow> random_randint 4 8)
       (\<lambda>num_rows.
     bindM (case arg_cols args of Some c \<Rightarrow> return c | None \<Rightarrow> random_randint 4 8)
       (\<lambda>num_cols.
     let square_size = arg_square_size args
     in bindM (load_color_palettes env (arg_palette_file args)) (\<lambda>palettes.
        bindM (case arg_palette_index args of
                 Some i \<Rightarrow> return i
               | None \<Rightarrow> random_randint 0 (int (length palettes) - 1)) (\<lambda>palette_idx.
        bindM (lift (getitem palettes palette_idx)) (\<lambda>color_palette.
        let block_styles =
              (case (if truthy (arg_block_styles args) then arg_block_styles args else None) of
                 Some styles \<Rightarrow> split_comma styles
               | None \<Rightarrow> all_styles);
            svg_width = num_rows * square_size;
            svg_height = num_cols * square_size
        in bindM (new_drawing (arg_output args)
                    (str_int svg_width @ ''px'', str_int svg_height @ ''px'') ''full'') (\<lambda>_.
           bindM (defs_add (Style ''svg * { shape-rendering: crispEdges; }'')) (\<lambda>_.
           bindM (create_background_colors env color_palette) (\<lambda>bgc.
           bindM (defs_add (RadialGradient ''background_gradient''
                    [(0, bg_inner bgc), (1, bg_outer bgc)])) (\<lambda>_.
           bindM (dwg_add (Rect (0, 0) (svg_width, svg_height) ''url(#background_gradient)''))
             (\<lambda>_.
           bindM (generate_grid num_rows num_cols square_size color_palette block_styles)
             (\<lambda>_.
           if arg_big_block args
           then bindM (case arg_big_block_size args of
                         Some m \<Rightarrow> return m
                       | None \<Rightarrow> random_choice [2, 3]) (\<lambda>big_block_size.
                generate_big_block num_rows num_cols square_size color_palette block_styles
                  big_block_size)
           else return ()))))))))))))"

subsection \<open>The second program: \<^verbatim>\<open>SVGArtGridV2.py\<close>\<close>

text \<open>
  Images are values of a type \<open>'img\<close> of which only the operations of the imaging
  library are known; \<open>kmeans_centers env k pixels\<close> stands for
  \<^verbatim>\<open>KMeans(n_clusters=k, random_state=42, n_init=10).fit(pixels).cluster_centers_\<close>,
  and \<open>image_pixels\<close> for \<^verbatim>\<open>np.array(img).reshape(-1, 3)\<close>.
\<close>

record 'img env2 = env +
  image_open :: "string \<Rightarrow> error + 'img"
  image_resize :: "'img \<Rightarrow> int \<times> int \<Rightarrow> error + 'img"
  image_crop :: "'img \<Rightarrow> int \<times> int \<times> int \<times> int \<Rightarrow> 'img"
  image_mode :: "'img \<Rightarrow> string"
  image_convert :: "'img \<Rightarrow> string \<Rightarrow> 'img"
  image_pixels :: "'img \<Rightarrow> (int \<times> int \<times> int) list"
  kmeans_centers :: "int \<Rightarrow> (int \<times> int \<times> int) list \<Rightarrow> error + triple list"

definition to_rgb_mode :: "('img, 'e) env2_scheme \<Rightarrow> 'img \<Rightarrow> 'img" where
  "to_rgb_mode env img =
     (if image_mode env img \<noteq> ''RGB'' then image_convert env img ''RGB'' else img)"

definition centroid_hex :: "triple \<Rightarrow> string" where
  "centroid_hex color = (case color of (r, g, b) \<Rightarrow> rgb_hex (trunc r, trunc g, trunc b))"

definition extract_palette_from_image ::
    "('img, 'e) env2_scheme \<Rightarrow> string \<Rightarrow> int \<Rightarrow> string list M" where
  "extract_palette_from_image env image_path color_count =
     bindM (lift (image_open env image_path)) (\<lambda>img.
     bindM (lift (image_resize env img (150, 150))) (\<lambda>img.
     let img = to_rgb_mode env img;
         pixels = image_pixels env img
     in bindM (lift (kmeans_centers env color_count pixels)) (\<lambda>colors.
        return (map centroid_hex colors))))"

definition bright :: "triple \<Rightarrow> real" where
  "bright color = (case color of (r, g, b) \<Rightarrow> 0.299 * r + 0.587 * g + 0.114 * b)"

definition sample_image_region ::
    "('img, 'e) env2_scheme \<Rightarrow> 'img \<Rightarrow> int \<Rightarrow> int \<Rightarrow> int \<Rightarrow> int \<Rightarrow> int \<Rightarrow> colors M" where
  "sample_image_region env img x y width height sample_count =
     (let region = image_crop env img (x, y, x + width, y + height)
      in bindM (lift (image_resize env region (50, 50))) (\<lambda>region.
         let region = to_rgb_mode env region;
             pixels = image_pixels env region
         in bindM (lift (kmeans_centers env sample_count pixels)) (\<lambda>colors.
            let hex_colors = map centroid_hex colors;
                brightness = map bright colors;
                sorted_colors = map snd (sort (zip brightness hex_colors))
            in bindM (lift (getitem sorted_colors 0)) (\<lambda>darkest.
               bindM (lift (getitem sorted_colors (- 1))) (\<lambda>lightest.
               return \<lparr>foreground = darkest, background = lightest\<rparr>)))))"

definition generate_composition_grid ::
    "('img, 'e) env2_scheme \<Rightarrow> string \<Rightarrow> int \<Rightarrow> int \<Rightarrow> int \<Rightarrow> string list \<Rightarrow> unit M" where
  "generate_composition_grid env image_path num_rows num_cols square_size block_styles =
     bindM (lift (image_open env image_path)) (\<lambda>img.
     bindM (lift (image_resize env img (num_rows * square_size, num_cols * square_size)))
       (\<lambda>img.
     for_each (py_range num_rows) (\<lambda>i.
       for_each (py_range num_cols) (\<lambda>j.
         let x_pos = i * square_size;
             y_pos = j * square_size
         in bindM (sample_image_region env img x_pos y_pos square_size square_size 2)
              (\<lambda>colors.
            let available_styles0 =
                  filter (\<lambda>style. dict_contains style_map style) block_styles;
                available_styles =
                  (if available_styles0 = [] then dict_keys style_map else available_styles0)
            in bindM (random_choice available_styles) (\<lambda>style_name.
               bindM (lift (dict_getitem style_map style_name)) (\<lambda>style_func.
               style_func x_pos y_pos square_size (foreground colors)
                 (background colors))))))))"

record args2 = args +
  arg_image :: "string option"
  arg_mode :: "string option"
  arg_color_count :: int
  arg_blend_factor :: real

definition main2 :: "('img, 'e) env2_scheme \<Rightarrow> 'a args2_scheme \<Rightarrow> unit M" where
  "main2 env args =
     bindM (case arg_seed args of None \<Rightarrow> return () | Some sd \<Rightarrow> seed_rng env sd) (\<lambda>_.
     bindM (case arg_rows args of Some r \<Rightarrow> return r | None \<Rightarrow> random_randint 8 16)
       (\<lambda>num_rows.
     bindM (case arg_cols args of Some c \<Rightarrow> return c | None \<Rightarrow> random_randint 8 16)
       (\<lambda>num_cols.
     let square_size = arg_square_size args;
         composition = (truthy (arg_image args) \<and> arg_mode args = Some ''composition'')
     in bindM (if truthy (arg_image args) \<and> arg_mode args = Some ''palette''
               then bindM (extract_palette_from_image env
                             (case arg_image args of Some f \<Rightarrow> f | None \<Rightarrow> [])
                             (arg_color_count args)) list_new
               else bindM (load_color_palettes env (arg_palette_file args)) (\<lambda>palettes.
                    bindM (case arg_palette_index args of
                             Some i \<Rightarrow> return i
                           | None \<Rightarrow> random_randint 0 (int (length palettes) - 1))
                      (\<lambda>palette_idx.
                    lift (getitem palettes palette_idx)))) (\<lambda>color_palette.
        let block_styles =
              (case (if truthy (arg_block_styles args) then arg_block_styles args else None) of
                 Some styles \<Rightarrow> split_comma styles
               | None \<Rightarrow> all_styles);
            svg_width = num_rows * square_size;
            svg_height = num_cols * square_size
        in bindM (new_drawing (arg_output args)
                    (str_int svg_width @ ''px'', str_int svg_height @ ''px'') ''full'') (\<lambda>_.
           bindM (defs_add (Style ''svg * { shape-rendering: crispEdges; }'')) (\<lambda>_.
           bindM (create_background_colors env color_palette) (\<lambda>bgc.
           bindM (defs_add (RadialGradient ''background_gradient''
                    [(0, bg_inner bgc), (1, bg_outer bgc)])) (\<lambda>_.
           bindM (dwg_add (Rect (0, 0) (svg_width, svg_height) ''url(#background_gradient)''))
             (\<lambda>_.
           bindM (if composition
                  then generate_composition_grid env
                         (case arg_image args of Some f \<Rightarrow> f | None \<Rightarrow> [])
                         num_rows num_cols square_size block_styles
                  else generate_grid num_rows num_cols square_size color_palette block_styles)
             (\<lambda>_.
           if arg_big_block args \<and> \<not> composition
           then bindM (case arg_big_block_size args of
                         Some m \<Rightarrow> return m
                       | None \<Rightarrow> random_choice [2, 3]) (\<lambda>big_block_size.
                generate_big_block num_rows num_cols square_size color_palette block_styles
                  big_block_size)
           else return ()))))))))))"

subsection \<open>Properties of a run used in the proofs\<close>

text \<open>
  \<open>keeps_size m\<close>: the action \<open>m\<close> leaves the declared size of the drawing as it is.
  \<open>block_added cls x y sz bg s s'\<close>: from \<open>s\<close> to \<open>s'\<close> the drawing has gained exactly one
  group, of class \<open>cls\<close>, whose first item is the background square at \<open>(x, y)\<close>.
  \<open>yields_size sz m\<close>: when \<open>m\<close> returns, the declared size of the drawing is \<open>sz\<close>.
\<close>

definition keeps_size :: "'a M \<Rightarrow> bool" where
  "keeps_size m = (\<forall>s. doc_size (dwg (snd (m s))) = doc_size (dwg s))"

definition block_added :: "string \<Rightarrow> int \<Rightarrow> int \<Rightarrow> int \<Rightarrow> string \<Rightarrow> world \<Rightarrow> world \<Rightarrow> bool" where
  "block_added cls x y sz bg s s' =
     (\<exists>items. elements (dwg s') =
        elements (dwg s) @ [Group (Some cls) None (Rect (x, y) (sz, sz) bg # items)])"

definition big_classes :: "string set" where
  "big_classes = {''draw-circle'', ''opposite-circles'', ''draw-cross'', ''draw-half-square'',
     ''draw-diagonal-square'', ''draw-quarter-circle'', ''draw-letter-block''}"

definition yields_size :: "string \<times> string \<Rightarrow> 'a M \<Rightarrow> bool" where
  "yields_size sz m = (\<forall>s a. fst (m s) = Inr a \<longrightarrow> doc_size (dwg (snd (m s))) = sz)"

named_theorems keeps

subsection \<open>Example inputs\<close>

text \<open>
  A world whose only list object is a palette, at address 0, with an empty drawing.
\<close>

definition blank :: drawing where
  "blank = \<lparr>filename = [], doc_size = ([], []), profile = [], defs = [], elements = []\<rparr>"

definition example_world :: "nat stream \<Rightarrow> string list \<Rightarrow> world" where
  "example_world g pal = \<lparr>rng = g, heap = (\<lambda>_. [])(0 := pal), next_addr = 1, dwg = blank\<rparr>"

definition two_colours :: "string list" where
  "two_colours = [''#000000'', ''#ffffff'']"

text \<open>
  The world a run of \<open>main\<close> starts from has no list object yet; the generator is in
  whatever state the process gave it.
\<close>

definition start_world :: "nat stream \<Rightarrow> world" where
  "start_world g = \<lparr>rng = g, heap = (\<lambda>_. []), next_addr = 0, dwg = blank\<rparr>"

text \<open>
  An environment for the examples: the conversions of \<^verbatim>\<open>colorsys\<close> as the library
  writes them, read over the reals; a catalogue of one palette behind the URL and no
  palette file; a seeding that stands in for the library's.
\<close>

definition colorsys_rgb_to_hls :: "triple \<Rightarrow> error + triple" where
  "colorsys_rgb_to_hls c =
     (case c of (r, g, b) \<Rightarrow>
        let maxc = max r (max g b); minc = min r (min g b);
            sumc = maxc + minc; rangec = maxc - minc; l = sumc / 2
        in if minc = maxc then Inr (0, l, 0)
           else if (if l \<le> 0.5 then sumc else 2 - maxc - minc) = 0 then Inl ZeroDivisionError
           else let s = (if l \<le> 0.5 then rangec / sumc else rangec / (2 - maxc - minc));
                    rc = (maxc - r) / rangec; gc = (maxc - g) / rangec; bc = (maxc - b) / rangec;
                    h = (if r = maxc then bc - gc
                         else if g = maxc then 2 + rc - bc else 4 + gc - rc)
                in Inr (frac (h / 6), l, s))"

definition colorsys_v :: "real \<Rightarrow> real \<Rightarrow> real \<Rightarrow> real" where
  "colorsys_v m1 m2 hue0 =
     (let hue = frac hue0
      in if hue < 1 / 6 then m1 + (m2 - m1) * hue * 6
         else if hue < 0.5 then m2
         else if hue < 2 / 3 then m1 + (m2 - m1) * (2 / 3 - hue) * 6
         else m1)"

definition colorsys_hls_to_rgb :: "triple \<Rightarrow> error + triple" where
  "colorsys_hls_to_rgb c =
     (case c of (h, l, s) \<Rightarrow>
        if s = 0 then Inr (l, l, l)
        else let m2 = (if l \<le> 0.5 then l * (1 + s) else l + s - l * s);
                 m1 = 2 * l - m2
             in Inr (colorsys_v m1 m2 (h + 1 / 3), colorsys_v m1 m2 h,
                     colorsys_v m1 m2 (h - 1 / 3)))"

definition example_env :: env where
  "example_env =
     \<lparr>random_seed = (\<lambda>sd. sconst (nat \<bar>sd\<bar>)),
      json_load_file = (\<lambda>file. Inl OSError),
      requests_get_json = (\<lambda>url. Inr [two_colours]),
      rgb_to_hls = colorsys_rgb_to_hls,
      hls_to_rgb = colorsys_hls_to_rgb\<rparr>"

text \<open>
  For the second program an image is the list of its pixels; resizing, cropping and
  conversion leave it as it is, and the stand-in for the clustering returns the first
  \<open>k\<close> pixels as the centroids.
\<close>

type_synonym pixels = "(int \<times> int \<times> int) list"

definition example_env2 :: "pixels env2" where
  "example_env2 =
     env.extend example_env
       (env2.fields
         (\<lambda>path. Inr [(200, 200, 200), (10, 20, 30)])
         (\<lambda>img sz. Inr img)
         (\<lambda>img box. img)
         (\<lambda>img. ''RGB'')
         (\<lambda>img mode. img)
         (\<lambda>img. img)
         (\<lambda>k px. Inr (map (\<lambda>(r, g, b). (real_of_int r, real_of_int g, real_of_int b))
                        (take (nat k) px))))"

text \<open>
  A command line for a grid of 1 row and 2 columns of cells of 10 pixels, without a focal
  block, and the same one with an image in composition mode.
\<close>

definition grid_args :: args where
  "grid_args =
     \<lparr>arg_rows = Some 1, arg_cols = Some 2, arg_square_size = 10,
      arg_output = ''art_grid.svg'', arg_seed = None, arg_palette_file = None,
      arg_palette_index = Some 0, arg_big_block = False, arg_big_block_size = None,
      arg_block_styles = None\<rparr>"

definition composition_args :: args2 where
  "composition_args =
     args.extend grid_args
       (args2.fields (Some ''photo.png'') (Some ''composition'') 5 0.7)"

section \<open>The monad and \<^verbatim>\<open>get_two_colors\<close>\<close>

lemma bindM_return [simp]: "bindM (return a) f s = f a s"
  by (simp add: bindM_def return_def)

lemma bindM_lift_Inr [simp]: "bindM (lift (Inr a)) f s = f a s"
  by (simp add: bindM_def lift_def)

lemma bindM_lift_Inl [simp]: "bindM (lift (Inl e)) f s = (Inl e, s)"
  by (simp add: bindM_def lift_def)

lemma bindM_Inr: "m s = (Inr a, s') \<Longrightarrow> bindM m f s = f a s'"
  by (simp add: bindM_def)

lemma bindM_Inl: "m s = (Inl e, s') \<Longrightarrow> bindM m f s = (Inl e, s')"
  by (simp add: bindM_def)

lemmas prim_defs = list_copy_def list_read_def list_new_def list_len_def
     return_def random_randint_def list_getitem_def lift_def getitem_def norm_index_def list_pop_def
     random_choice_def

lemma get_two_colors_ok:
  assumes "2 \<le> length (heap s p)"
  shows "get_two_colors p s =
    (let pal = heap s p; i = shd (rng s) mod length pal;
         rest = take i pal @ drop (Suc i) pal;
         j = shd (stl (rng s)) mod length rest
     in (Inr \<lparr>foreground = rest ! j, background = pal ! i\<rparr>,
         s\<lparr>rng := stl (stl (rng s)),
           heap := (heap s)(next_addr s := rest),
           next_addr := Suc (next_addr s)\<rparr>))"
proof -
  let ?pal = "heap s p"
  let ?i = "shd (rng s) mod length ?pal"
  have ne: "?pal \<noteq> []" using assms by auto
  have i: "?i < length ?pal" using ne by simp
  have rest: "take ?i ?pal @ drop (Suc ?i) ?pal \<noteq> []"
    using assms i by (cases "?i") auto
  show ?thesis
    using ne i rest
    by (simp add: get_two_colors_def bindM_def prim_defs Let_def)
qed

lemma get_two_colors_empty:
  assumes "heap s p = []"
  shows "get_two_colors p s =
    (Inl ValueError, s\<lparr>heap := (heap s)(next_addr s := []), next_addr := Suc (next_addr s)\<rparr>)"
  using assms by (simp add: get_two_colors_def bindM_def prim_defs Let_def)

lemma get_two_colors_single:
  assumes "length (heap s p) = 1"
  shows "get_two_colors p s =
    (Inl IndexError, s\<lparr>rng := stl (rng s), heap := (heap s)(next_addr s := []),
        next_addr := Suc (next_addr s)\<rparr>)"
proof -
  from assms obtain c where "heap s p = [c]"
    by (cases "heap s p") auto
  then show ?thesis
    by (simp add: get_two_colors_def bindM_def prim_defs Let_def)
qed

lemma get_two_colors_cases:
  "heap s p = [] \<or> length (heap s p) = 1 \<or> 2 \<le> length (heap s p)"
  by (cases "heap s p") (auto simp: Suc_le_eq)

lemma get_two_colors_frame:
  "dwg (snd (get_two_colors p s)) = dwg s"
  "p < next_addr s \<Longrightarrow> heap (snd (get_two_colors p s)) p = heap s p"
  using get_two_colors_cases[of s p]
  by (auto simp: get_two_colors_ok get_two_colors_empty get_two_colors_single Let_def)

lemma keeps_return [keeps]: "keeps_size (return a)"
  by (simp add: keeps_size_def return_def)

lemma keeps_lift [keeps]: "keeps_size (lift r)"
  by (simp add: keeps_size_def lift_def)

lemma keeps_bindM [keeps]:
  assumes "keeps_size m" and "\<And>a. keeps_size (f a)"
  shows "keeps_size (bindM m f)"
proof -
  have "doc_size (dwg (snd (bindM m f s))) = doc_size (dwg s)" for s
  proof (cases "m s")
    case (Pair r s')
    then have s': "doc_size (dwg s') = doc_size (dwg s)"
      using assms(1) by (auto simp: keeps_size_def dest: spec[of _ s])
    show ?thesis
    proof (cases r)
      case (Inl e)
      with Pair s' show ?thesis by (simp add: bindM_def)
    next
      case (Inr a)
      with Pair have "bindM m f s = f a s'" by (simp add: bindM_def)
      with assms(2)[of a] s' show ?thesis by (simp add: keeps_size_def)
    qed
  qed
  then show ?thesis by (simp add: keeps_size_def)
qed

lemma keeps_for_each [keeps]:
  assumes "\<And>x. keeps_size (body x)"
  shows "keeps_size (for_each xs body)"
  by (induction xs) (auto intro!: keeps_return keeps_bindM assms)

lemma keeps_if [keeps]:
  "(c \<Longrightarrow> keeps_size m) \<Longrightarrow> (\<not> c \<Longrightarrow> keeps_size n) \<Longrightarrow> keeps_size (if c then m else n)"
  by simp

lemma keeps_prims [keeps]:
  "keeps_size (random_randint a b)"
  "keeps_size (random_choice xs)"
  "keeps_size random_random"
  "keeps_size (list_new ys)"
  "keeps_size (list_read p)"
  "keeps_size (list_pop p i)"
  "keeps_size (dwg_add e)"
  "keeps_size (defs_add d)"
  "keeps_size (seed_rng env sd)"
  by (simp_all add: keeps_size_def random_randint_def random_choice_def random_random_def
      list_new_def list_read_def list_pop_def dwg_add_def defs_add_def seed_rng_def
      split: option.split)

lemma keeps_list_ops [keeps]:
  "keeps_size (list_copy p)" "keeps_size (list_len p)" "keeps_size (list_getitem p i)"
  by (auto simp: list_copy_def list_len_def list_getitem_def intro!: keeps)

lemma keeps_get_two_colors [keeps]: "keeps_size (get_two_colors p)"
  by (simp add: keeps_size_def get_two_colors_frame)

lemma keeps_draw [keeps]:
  "keeps_size (draw_circle x y sz fg bg)"
  "keeps_size (draw_opposite_circles x y sz fg bg)"
  "keeps_size (draw_cross x y sz fg bg)"
  "keeps_size (draw_half_square x y sz fg bg)"
  "keeps_size (draw_diagonal_square x y sz fg bg)"
  "keeps_size (draw_quarter_circle x y sz fg bg)"
  "keeps_size (draw_dots x y sz fg bg)"
  "keeps_size (draw_letter_block x y sz fg bg)"
  by (auto simp: draw_circle_def draw_opposite_circles_def draw_cross_def draw_half_square_def
      draw_diagonal_square_def draw_quarter_circle_def draw_dots_def draw_letter_block_def Let_def
      intro!: keeps)

lemma style_map_cases:
  assumes "dict_getitem style_map name = Inr f"
  shows "f \<in> {draw_circle, draw_opposite_circles, draw_cross, draw_half_square,
     draw_diagonal_square, draw_quarter_circle, draw_dots, draw_letter_block}"
  using assms by (auto simp: dict_getitem_def style_map_def split: if_splits)

lemma keeps_style_map [keeps]:
  "keeps_size (bindM (lift (dict_getitem style_map name)) (\<lambda>f. f x y sz fg bg))"
proof (cases "dict_getitem style_map name")
  case (Inl e)
  then show ?thesis by (simp add: keeps_size_def)
next
  case (Inr f)
  from style_map_cases[OF this] have "keeps_size (f x y sz fg bg)"
    by (auto intro: keeps_draw)
  with Inr show ?thesis by (simp add: keeps_size_def)
qed

lemma keeps_generate_little_block [keeps]:
  "keeps_size (generate_little_block i j sz p bs)"
  by (auto simp: generate_little_block_def Let_def intro!: keeps)

lemma keeps_generate_grid [keeps]:
  "keeps_size (generate_grid r c sz p bs)"
  by (auto simp: generate_grid_def intro!: keeps)

lemma draw_circle_run:
  "\<exists>s'. draw_circle x y sz fg bg s = (Inr (), s') \<and> block_added ''draw-circle'' x y sz bg s s'"
  by (simp add: draw_circle_def bindM_def random_random_def dwg_add_def block_added_def Let_def)

lemma draw_opposite_circles_run:
  "\<exists>s'. draw_opposite_circles x y sz fg bg s = (Inr (), s') \<and>
     block_added ''opposite-circles'' x y sz bg s s'"
  by (simp add: draw_opposite_circles_def bindM_def random_choice_def dwg_add_def defs_add_def
      block_added_def Let_def)

lemma draw_half_square_run:
  "\<exists>s'. draw_half_square x y sz fg bg s = (Inr (), s') \<and>
     block_added ''draw-half-square'' x y sz bg s s'"
  by (simp add: draw_half_square_def bindM_def random_choice_def dwg_add_def
      block_added_def Let_def)

lemma draw_diagonal_square_run:
  "\<exists>s'. draw_diagonal_square x y sz fg bg s = (Inr (), s') \<and>
     block_added ''draw-diagonal-square'' x y sz bg s s'"
  by (simp add: draw_diagonal_square_def bindM_def random_random_def dwg_add_def
      block_added_def Let_def)

lemma draw_quarter_circle_run:
  "\<exists>s'. draw_quarter_circle x y sz fg bg s = (Inr (), s') \<and>
     block_added ''draw-quarter-circle'' x y sz bg s s'"
  by (simp add: draw_quarter_circle_def bindM_def random_choice_def dwg_add_def
      block_added_def Let_def)

lemma draw_dots_run:
  "\<exists>s'. draw_dots x y sz fg bg s = (Inr (), s') \<and> block_added ''draw-dots'' x y sz bg s s'"
  by (simp add: draw_dots_def bindM_def random_choice_def dwg_add_def block_added_def Let_def)

lemma draw_letter_block_run:
  "\<exists>s'. draw_letter_block x y sz fg bg s = (Inr (), s') \<and>
     block_added ''draw-letter-block'' x y sz bg s s'"
  by (simp add: draw_letter_block_def bindM_def random_choice_def dwg_add_def block_added_def
      characters_def Let_def)

lemma thick_line_diagonal:
  assumes "sz \<noteq> 0"
  shows "\<exists>ps. thick_line (x, y) (x + sz, y + sz) w = Inr ps"
    and "\<exists>ps. thick_line (x + sz, y) (x, y + sz) w = Inr ps"
  using assms by (simp_all add: thick_line_def Let_def power2_eq_square)

lemma draw_cross_run:
  assumes "sz \<noteq> 0"
  shows "\<exists>s'. draw_cross x y sz fg bg s = (Inr (), s') \<and> block_added ''draw-cross'' x y sz bg s s'"
proof -
  obtain ps qs where ps: "thick_line (x, y) (x + sz, y + sz) (real_of_int sz / 6) = Inr ps"
    and qs: "thick_line (x + sz, y) (x, y + sz) (real_of_int sz / 6) = Inr qs"
    using thick_line_diagonal[OF assms] by blast
  show ?thesis
    by (simp add: draw_cross_def bindM_def random_random_def dwg_add_def block_added_def Let_def
        lift_def ps qs)
qed

lemma draw_cross_any:
  assumes "draw_cross x y sz fg bg s = (r, s')"
  shows "(r = Inr () \<and> block_added ''draw-cross'' x y sz bg s s') \<or>
         (\<exists>e. r = Inl e \<and> dwg s' = dwg s)"
proof (cases "sz = 0")
  case False
  from draw_cross_run[OF this, of x y fg bg s] assms show ?thesis by auto
next
  case True
  with assms show ?thesis
    by (auto simp: draw_cross_def bindM_def random_random_def dwg_add_def block_added_def Let_def
        lift_def thick_line_def split: if_splits)
qed

lemma big_style_any:
  assumes "dict_getitem big_style_map name = Inr f" and "f x y sz fg bg s = (r, s')"
  shows "(r = Inr () \<and> (\<exists>cls \<in> big_classes. block_added cls x y sz bg s s')) \<or>
         (\<exists>e. r = Inl e \<and> dwg s' = dwg s)"
proof -
  from assms(1) consider "f = draw_circle" | "f = draw_opposite_circles" | "f = draw_cross"
    | "f = draw_half_square" | "f = draw_diagonal_square" | "f = draw_quarter_circle"
    | "f = draw_letter_block"
    by (auto simp: dict_getitem_def big_style_map_def split: if_splits)
  then show ?thesis
  proof cases
    case 1 with assms(2) draw_circle_run[of x y sz fg bg s] show ?thesis
      by (auto simp: big_classes_def)
  next
    case 2 with assms(2) draw_opposite_circles_run[of x y sz fg bg s] show ?thesis
      by (auto simp: big_classes_def)
  next
    case 3 with assms(2) draw_cross_any[of x y sz fg bg s r s'] show ?thesis
      by (auto simp: big_classes_def)
  next
    case 4 with assms(2) draw_half_square_run[of x y sz fg bg s] show ?thesis
      by (auto simp: big_classes_def)
  next
    case 5 with assms(2) draw_diagonal_square_run[of x y sz fg bg s] show ?thesis
      by (auto simp: big_classes_def)
  next
    case 6 with assms(2) draw_quarter_circle_run[of x y sz fg bg s] show ?thesis
      by (auto simp: big_classes_def)
  next
    case 7 with assms(2) draw_letter_block_run[of x y sz fg bg s] show ?thesis
      by (auto simp: big_classes_def)
  qed
qed

lemma big_style_ok:
  assumes "dict_getitem big_style_map name = Inr f" and "sz \<noteq> 0"
  shows "fst (f x y sz fg bg s) = Inr ()"
proof -
  from assms(1) consider "f = draw_circle" | "f = draw_opposite_circles" | "f = draw_cross"
    | "f = draw_half_square" | "f = draw_diagonal_square" | "f = draw_quarter_circle"
    | "f = draw_letter_block"
    by (auto simp: dict_getitem_def big_style_map_def split: if_splits)
  then show ?thesis
  proof cases
    case 1 with draw_circle_run[of x y sz fg bg s] show ?thesis by auto
  next
    case 2 with draw_opposite_circles_run[of x y sz fg bg s] show ?thesis by auto
  next
    case 3 with draw_cross_run[OF assms(2), of x y fg bg s] show ?thesis by auto
  next
    case 4 with draw_half_square_run[of x y sz fg bg s] show ?thesis by auto
  next
    case 5 with draw_diagonal_square_run[of x y sz fg bg s] show ?thesis by auto
  next
    case 6 with draw_quarter_circle_run[of x y sz fg bg s] show ?thesis by auto
  next
    case 7 with draw_letter_block_run[of x y sz fg bg s] show ?thesis by auto
  qed
qed

lemma big_available_styles_keys:
  "set (big_available_styles bs) \<subseteq> set (dict_keys big_style_map)"
  by (auto simp: big_available_styles_def Let_def dict_contains_def dict_keys_def big_style_map_def)

lemma big_available_styles_nonempty: "big_available_styles bs \<noteq> []"
  by (simp add: big_available_styles_def Let_def dict_keys_def big_style_map_def)

lemma big_available_styles_no_dots: "''dots'' \<notin> set (big_available_styles bs)"
  by (auto simp: big_available_styles_def Let_def dict_keys_def big_style_map_def)

lemma big_style_lookup:
  assumes "name \<in> set (dict_keys big_style_map)"
  shows "\<exists>f. dict_getitem big_style_map name = Inr f"
  using assms by (auto simp: dict_getitem_def dict_keys_def big_style_map_def)

lemma random_choice_ok:
  assumes "xs \<noteq> []"
  shows "\<exists>x s'. random_choice xs s = (Inr x, s') \<and> x \<in> set xs \<and> dwg s' = dwg s"
  using assms by (simp add: random_choice_def)

lemma random_randint_ok:
  assumes "a \<le> b"
  shows "\<exists>n s'. random_randint a b s = (Inr n, s') \<and> a \<le> n \<and> n \<le> b \<and> dwg s' = dwg s"
proof -
  have "0 < nat (b - a + 1)" using assms by simp
  then have "shd (rng s) mod nat (b - a + 1) < nat (b - a + 1)"
    by (rule mod_less_divisor)
  then have "int (shd (rng s) mod nat (b - a + 1)) < b - a + 1"
    by linarith
  with assms show ?thesis by (simp add: random_randint_def)
qed

lemma random_randint_empty:
  assumes "b < a"
  shows "random_randint a b s = (Inl ValueError, s)"
  using assms by (simp add: random_randint_def)

lemma generate_big_block_draws:
  assumes pal: "2 \<le> length (heap s p)" and rows: "m \<le> num_rows" and cols: "m \<le> num_cols"
  shows "\<exists>rx ry name f (cs::colors) s1.
           0 \<le> rx \<and> rx \<le> num_rows - m \<and> 0 \<le> ry \<and> ry \<le> num_cols - m \<and>
           name \<in> set (big_available_styles bs) \<and>
           dict_getitem big_style_map name = Inr f \<and>
           dwg s1 = dwg s \<and>
           generate_big_block num_rows num_cols sz p bs m s =
             f (rx * sz) (ry * sz) (m * sz) (foreground cs) (background cs) s1"
proof -
  obtain cs s0 where c: "get_two_colors p s = (Inr cs, s0)" and d0: "dwg s0 = dwg s"
    using get_two_colors_ok[OF pal] by (simp add: Let_def)
  obtain rx s1 where rx: "random_randint 0 (num_rows - m) s0 = (Inr rx, s1)"
    and rxb: "0 \<le> rx" "rx \<le> num_rows - m" and d1: "dwg s1 = dwg s0"
    using random_randint_ok[of 0 "num_rows - m" s0] rows by auto
  obtain ry s2 where ry: "random_randint 0 (num_cols - m) s1 = (Inr ry, s2)"
    and ryb: "0 \<le> ry" "ry \<le> num_cols - m" and d2: "dwg s2 = dwg s1"
    using random_randint_ok[of 0 "num_cols - m" s1] cols by auto
  obtain name s3 where ch: "random_choice (big_available_styles bs) s2 = (Inr name, s3)"
    and mem: "name \<in> set (big_available_styles bs)" and d3: "dwg s3 = dwg s2"
    using random_choice_ok[OF big_available_styles_nonempty] by blast
  obtain f where f: "dict_getitem big_style_map name = Inr f"
    using big_style_lookup mem big_available_styles_keys by blast
  have run: "generate_big_block num_rows num_cols sz p bs m s =
          f (rx * sz) (ry * sz) (m * sz) (foreground cs) (background cs) s3"
    by (simp add: generate_big_block_def Let_def bindM_def c rx ry ch f lift_def)
  have d: "dwg s3 = dwg s" using d0 d1 d2 d3 by simp
  show ?thesis
    using rxb ryb mem f run d by blast
qed

lemma big_block_layout_fails:
  assumes "num_rows < m \<or> num_cols < m"
  shows "(\<exists>e. fst (generate_big_block num_rows num_cols sz p bs m s) = Inl e) \<and>
         dwg (snd (generate_big_block num_rows num_cols sz p bs m s)) = dwg s \<and>
         (2 \<le> length (heap s p) \<longrightarrow>
            fst (generate_big_block num_rows num_cols sz p bs m s) = Inl ValueError)"
proof (cases "2 \<le> length (heap s p)")
  case False
  then have "heap s p = [] \<or> length (heap s p) = 1"
    using get_two_colors_cases[of s p] by auto
  then show ?thesis
    using False
    by (auto simp: generate_big_block_def bindM_def get_two_colors_empty get_two_colors_single)
next
  case True
  obtain cs s0 where c: "get_two_colors p s = (Inr cs, s0)" and d0: "dwg s0 = dwg s"
    using get_two_colors_ok[OF True] by (simp add: Let_def)
  show ?thesis
  proof (cases "num_rows < m")
    case True
    then have "random_randint 0 (num_rows - m) s0 = (Inl ValueError, s0)"
      by (simp add: random_randint_empty)
    then show ?thesis
      using d0 by (simp add: generate_big_block_def Let_def bindM_def c)
  next
    case False
    with assms have cols: "num_cols < m" by simp
    obtain rx s1 where rx: "random_randint 0 (num_rows - m) s0 = (Inr rx, s1)"
      and d1: "dwg s1 = dwg s0"
      using random_randint_ok[of 0 "num_rows - m" s0] False by auto
    have "random_randint 0 (num_cols - m) s1 = (Inl ValueError, s1)"
      using cols by (simp add: random_randint_empty)
    then show ?thesis
      using d0 d1 by (simp add: generate_big_block_def Let_def bindM_def c rx)
  qed
qed

lemmas run_defs = get_two_colors_def bindM_def list_copy_def list_read_def list_new_def
  list_len_def return_def random_randint_def list_getitem_def lift_def getitem_def
  norm_index_def list_pop_def random_choice_def Let_def

text \<open>
  Claim C1. For a palette with at least two distinct colours the foreground returned by
  \<^verbatim>\<open>get_two_colors\<close> should differ from the background, as its docstring says
  (``Get two different colors from the palette''). The function removes the drawn
  \<^emph>\<open>position\<close> from its copy, not the drawn colour: on the palette
  \<^verbatim>\<open>["#ff0000", "#00ff00", "#ff0000"]\<close>, when \<^verbatim>\<open>randint\<close> draws index 0 and
  \<^verbatim>\<open>choice\<close> then draws index 1 of the two entries left, both colours are
  \<^verbatim>\<open>"#ff0000"\<close>.
\<close>

theorem get_two_colors_repeated_colour:
  "2 \<le> card (set [''#ff0000'', ''#00ff00'', ''#ff0000'']) \<and>
   fst (get_two_colors 0
         (example_world ([0, 1] @- sconst 0) [''#ff0000'', ''#00ff00'', ''#ff0000''])) =
     Inr \<lparr>foreground = ''#ff0000'', background = ''#ff0000''\<rparr>"
  by (simp add: example_world_def run_defs card_insert_if)

text \<open>On a palette without repeated entries the two colours do differ.\<close>

lemma get_two_colors_distinct:
  assumes "distinct (heap s p)" and "2 \<le> length (heap s p)"
  shows "\<exists>c. fst (get_two_colors p s) = Inr c \<and> foreground c \<noteq> background c"
proof -
  let ?pal = "heap s p"
  let ?i = "shd (rng s) mod length ?pal"
  let ?rest = "take ?i ?pal @ drop (Suc ?i) ?pal"
  let ?j = "shd (stl (rng s)) mod length ?rest"
  have ne: "?pal \<noteq> []" using assms(2) by auto
  then have i: "?i < length ?pal" by simp
  have rest: "?rest \<noteq> []" using assms(2) i by (cases "?i") auto
  then have "0 < length ?rest" by (rule length_greater_0_conv[THEN iffD2])
  then have "?j < length ?rest" by (rule mod_less_divisor)
  then have "?rest ! ?j \<in> set ?rest" by (rule nth_mem)
  moreover have "?pal ! ?i \<notin> set ?rest"
  proof -
    have "?pal = take ?i ?pal @ ?pal ! ?i # drop (Suc ?i) ?pal"
      using i by (simp add: id_take_nth_drop)
    then have "distinct (take ?i ?pal @ ?pal ! ?i # drop (Suc ?i) ?pal)"
      using assms(1) by simp
    then show ?thesis by auto
  qed
  ultimately have "?rest ! ?j \<noteq> ?pal ! ?i" by metis
  then show ?thesis
    by (simp add: get_two_colors_ok[OF assms(2)] Let_def)
qed

text \<open>
  Claim C5. In palette mode, resolving the colour pair of a cell fails when the palette has
  fewer than two colours: on an empty palette \<^verbatim>\<open>randint(0, -1)\<close> raises
  \<^verbatim>\<open>ValueError\<close>, on a palette of one colour \<^verbatim>\<open>choice\<close> of the emptied copy raises
  \<^verbatim>\<open>IndexError\<close> (the source has no exception class of its own; these two uncaught
  exceptions are the insufficient-palette failure). With two or more colours it succeeds:
  the background is the entry at the index \<open>i\<close> drawn by \<^verbatim>\<open>randint(0, n - 1)\<close>, the
  working copy (the new list object) is left without that entry, and the foreground is the
  entry of the copy at the index \<open>j\<close> drawn by \<^verbatim>\<open>choice\<close>.
\<close>

theorem get_two_colors_palette_size:
  "(heap s p = [] \<longrightarrow> fst (get_two_colors p s) = Inl ValueError) \<and>
   (length (heap s p) = 1 \<longrightarrow> fst (get_two_colors p s) = Inl IndexError) \<and>
   (2 \<le> length (heap s p) \<longrightarrow>
      (\<exists>i j. i = shd (rng s) mod length (heap s p) \<and> i < length (heap s p) \<and>
             j = shd (stl (rng s)) mod (length (heap s p) - 1) \<and> j < length (heap s p) - 1 \<and>
             heap (snd (get_two_colors p s)) (next_addr s) =
               take i (heap s p) @ drop (Suc i) (heap s p) \<and>
             fst (get_two_colors p s) =
               Inr \<lparr>foreground = (take i (heap s p) @ drop (Suc i) (heap s p)) ! j,
                    background = heap s p ! i\<rparr>))"
proof (intro conjI impI)
  assume "heap s p = []"
  then show "fst (get_two_colors p s) = Inl ValueError"
    by (simp add: get_two_colors_empty)
next
  assume "length (heap s p) = 1"
  then show "fst (get_two_colors p s) = Inl IndexError"
    by (simp add: get_two_colors_single)
next
  assume len: "2 \<le> length (heap s p)"
  let ?pal = "heap s p"
  let ?i = "shd (rng s) mod length ?pal"
  have ne: "?pal \<noteq> []" using len by auto
  then have i: "?i < length ?pal" by simp
  then have l: "length (take ?i ?pal @ drop (Suc ?i) ?pal) = length ?pal - 1"
    by simp
  have j: "shd (stl (rng s)) mod (length ?pal - 1) < length ?pal - 1"
    using len by (intro mod_less_divisor) simp
  show "\<exists>i j. i = shd (rng s) mod length (heap s p) \<and> i < length (heap s p) \<and>
             j = shd (stl (rng s)) mod (length (heap s p) - 1) \<and> j < length (heap s p) - 1 \<and>
             heap (snd (get_two_colors p s)) (next_addr s) =
               take i (heap s p) @ drop (Suc i) (heap s p) \<and>
             fst (get_two_colors p s) =
               Inr \<lparr>foreground = (take i (heap s p) @ drop (Suc i) (heap s p)) ! j,
                    background = heap s p ! i\<rparr>"
    using i j l by (simp add: get_two_colors_ok[OF len] Let_def)
qed

theorem get_two_colors_palette_size_witness:
  "fst (get_two_colors 0 (example_world (sconst 0) [])) = Inl ValueError \<and>
   fst (get_two_colors 0 (example_world (sconst 0) [''#aaaaaa''])) = Inl IndexError \<and>
   fst (get_two_colors 0 (example_world (sconst 0) [''#ff0000'', ''#00ff00''])) =
     Inr \<lparr>foreground = ''#00ff00'', background = ''#ff0000''\<rparr>"
  using get_two_colors_palette_size[of "example_world (sconst 0) []" 0]
    get_two_colors_palette_size[of "example_world (sconst 0) [''#aaaaaa'']" 0]
    get_two_colors_palette_size[of "example_world (sconst 0) [''#ff0000'', ''#00ff00'']" 0]
  by (simp add: example_world_def)

text \<open>
  Claim C10. \<^verbatim>\<open>get_two_colors\<close> never mutates its input palette: whatever the call
  returns or raises, the list object it was given holds the same entries afterwards; the
  \<^verbatim>\<open>pop\<close> acts on the copy, which is a new object.
\<close>

theorem get_two_colors_keeps_palette:
  "p < next_addr s \<Longrightarrow> heap (snd (get_two_colors p s)) p = heap s p"
  by (rule get_two_colors_frame)

theorem get_two_colors_keeps_palette_witness:
  "heap (snd (get_two_colors 0 (example_world (sconst 0) [''#ff0000'', ''#00ff00'']))) 0 =
     [''#ff0000'', ''#00ff00'']"
  using get_two_colors_keeps_palette[of 0 "example_world (sconst 0) [''#ff0000'', ''#00ff00'']"]
  by (simp add: example_world_def)

text \<open>
  Claim C9. The colour mix (the floor of the mean, channel by channel) is commutative.
\<close>

theorem mix_commutative: "mix a b = mix b a"
  by (cases a; cases b) (simp add: mix_def add.commute)

section \<open>The focal block\<close>

text \<open>
  Claim C4. When the multiplier exceeds the grid (\<open>num_rows < multiplier\<close> or
  \<open>num_cols < multiplier\<close>, for instance a 2 by 2 grid and multiplier 3),
  \<^verbatim>\<open>generate_big_block\<close> fails before anything is drawn: the drawing is what it was.
  With a palette of at least two colours the failure is the \<^verbatim>\<open>ValueError\<close> that
  \<^verbatim>\<open>random.randint\<close> raises for the empty range of positions, which is the layout error
  of the specification (the source has no exception class of its own).
\<close>

theorem generate_big_block_layout_error:
  assumes "num_rows < multiplier \<or> num_cols < multiplier"
  shows "(\<exists>e. fst (generate_big_block num_rows num_cols square_size color_palette block_styles
                  multiplier s) = Inl e) \<and>
         dwg (snd (generate_big_block num_rows num_cols square_size color_palette block_styles
                  multiplier s)) = dwg s \<and>
         (2 \<le> length (heap s color_palette) \<longrightarrow>
            fst (generate_big_block num_rows num_cols square_size color_palette block_styles
                  multiplier s) = Inl ValueError)"
  using assms by (rule big_block_layout_fails)

theorem generate_big_block_layout_error_witness:
  "fst (generate_big_block 2 2 100 0 all_styles 3 (example_world (sconst 0) two_colours)) =
     Inl ValueError \<and>
   dwg (snd (generate_big_block 2 2 100 0 all_styles 3
               (example_world (sconst 0) two_colours))) =
     dwg (example_world (sconst 0) two_colours)"
  using generate_big_block_layout_error[of 2 3 2 100 0 all_styles
      "example_world (sconst 0) two_colours"]
  by (simp add: example_world_def two_colours_def)

lemmas big_block_defs = generate_big_block_def big_available_styles_def big_style_map_def
  dict_contains_def dict_keys_def dict_getitem_def draw_circle_def random_random_def dwg_add_def
  blank_def two_colours_def

lemma big_block_example:
  "fst (generate_big_block 4 4 100 0 [''dots''] 2 (example_world (sconst 0) two_colours)) = Inr ()"
  by (simp add: example_world_def get_two_colors_ok Let_def big_block_defs bindM_def
      random_randint_def random_choice_def lift_def)

text \<open>
  Claim C6. Whatever list of styles the caller allows, with or without \<^verbatim>\<open>'dots'\<close> in it
  and also when none of its entries is a known style, the style chosen for the focal block
  is never the dots: \<^verbatim>\<open>'dots'\<close> is not among the styles the choice is made from, and the
  group a successful call adds to the drawing is of one of the seven other classes.
\<close>

theorem big_block_never_dots:
  "''dots'' \<notin> set (big_available_styles block_styles) \<and>
   (fst (generate_big_block num_rows num_cols square_size color_palette block_styles
           multiplier s) = Inr () \<longrightarrow>
    (\<exists>cls x y sz bg items.
        cls \<in> {''draw-circle'', ''opposite-circles'', ''draw-cross'', ''draw-half-square'',
               ''draw-diagonal-square'', ''draw-quarter-circle'', ''draw-letter-block''} \<and>
        cls \<noteq> ''draw-dots'' \<and>
        elements (dwg (snd (generate_big_block num_rows num_cols square_size color_palette
                             block_styles multiplier s))) =
          elements (dwg s) @ [Group (Some cls) None (Rect (x, y) (sz, sz) bg # items)]))"
proof (intro conjI impI)
  show "''dots'' \<notin> set (big_available_styles block_styles)"
    by (rule big_available_styles_no_dots)
next
  let ?run = "generate_big_block num_rows num_cols square_size color_palette block_styles
                multiplier s"
  assume ok: "fst ?run = Inr ()"
  have pal: "2 \<le> length (heap s color_palette)"
  proof (rule ccontr)
    assume "\<not> ?thesis"
    then have "heap s color_palette = [] \<or> length (heap s color_palette) = 1"
      using get_two_colors_cases[of s color_palette] by auto
    then have "\<exists>e. fst ?run = Inl e"
      by (auto simp: generate_big_block_def bindM_def get_two_colors_empty
          get_two_colors_single)
    with ok show False by simp
  qed
  have fit: "multiplier \<le> num_rows \<and> multiplier \<le> num_cols"
  proof (rule ccontr)
    assume "\<not> ?thesis"
    then have "num_rows < multiplier \<or> num_cols < multiplier" by auto
    from big_block_layout_fails[OF this, of square_size color_palette block_styles s] ok
    show False by simp
  qed
  obtain rx ry name f and cs :: colors and s1 where
    f: "dict_getitem big_style_map name = Inr f" and d: "dwg s1 = dwg s" and
    run: "?run = f (rx * square_size) (ry * square_size) (multiplier * square_size)
                   (foreground cs) (background cs) s1"
    using generate_big_block_draws[OF pal, of multiplier num_rows num_cols block_styles
        square_size] fit by blast
  obtain r s' where rs: "?run = (r, s')" by (cases ?run)
  with ok have r: "r = Inr ()" by simp
  from big_style_any[OF f, of "rx * square_size" "ry * square_size" "multiplier * square_size"
      "foreground cs" "background cs" s1 r s'] run rs r
  obtain cls where cls: "cls \<in> big_classes" and
    b: "block_added cls (rx * square_size) (ry * square_size) (multiplier * square_size)
          (background cs) s1 s'"
    by auto
  from b d obtain items where items:
    "elements (dwg s') = elements (dwg s) @
       [Group (Some cls) None
          (Rect (real_of_int (rx * square_size), real_of_int (ry * square_size))
                (real_of_int (multiplier * square_size),
                 real_of_int (multiplier * square_size)) (background cs) # items)]"
    by (auto simp: block_added_def)
  from cls have mem: "cls \<in> {''draw-circle'', ''opposite-circles'', ''draw-cross'',
      ''draw-half-square'', ''draw-diagonal-square'', ''draw-quarter-circle'',
      ''draw-letter-block''}"
    by (simp add: big_classes_def)
  then have nd: "cls \<noteq> ''draw-dots''" by auto
  have el: "elements (dwg (snd ?run)) = elements (dwg s) @
       [Group (Some cls) None
          (Rect (real_of_int (rx * square_size), real_of_int (ry * square_size))
                (real_of_int (multiplier * square_size),
                 real_of_int (multiplier * square_size)) (background cs) # items)]"
    using items rs by simp
  show "\<exists>cls x y sz bg items.
        cls \<in> {''draw-circle'', ''opposite-circles'', ''draw-cross'', ''draw-half-square'',
               ''draw-diagonal-square'', ''draw-quarter-circle'', ''draw-letter-block''} \<and>
        cls \<noteq> ''draw-dots'' \<and>
        elements (dwg (snd ?run)) =
          elements (dwg s) @ [Group (Some cls) None (Rect (x, y) (sz, sz) bg # items)]"
    using mem nd el by blast
qed

theorem big_block_never_dots_witness:
  "''dots'' \<notin> set (big_available_styles [''dots'']) \<and>
   fst (generate_big_block 4 4 100 0 [''dots''] 2 (example_world (sconst 0) two_colours)) = Inr () \<and>
   (\<exists>cls x y sz bg items.
        cls \<in> {''draw-circle'', ''opposite-circles'', ''draw-cross'', ''draw-half-square'',
               ''draw-diagonal-square'', ''draw-quarter-circle'', ''draw-letter-block''} \<and>
        cls \<noteq> ''draw-dots'' \<and>
        elements (dwg (snd (generate_big_block 4 4 100 0 [''dots''] 2
                             (example_world (sconst 0) two_colours)))) =
          elements (dwg (example_world (sconst 0) two_colours)) @
            [Group (Some cls) None (Rect (x, y) (sz, sz) bg # items)])"
  using big_block_never_dots[of "[''dots'']" 4 4 100 0 2 "example_world (sconst 0) two_colours",
      THEN conjunct1]
    big_block_example
    big_block_never_dots[of "[''dots'']" 4 4 100 0 2 "example_world (sconst 0) two_colours",
      THEN conjunct2, THEN mp, OF big_block_example]
  by (intro conjI) assumption+

text \<open>
  Claim C7. When the grid has at least \<open>multiplier\<close> rows and columns (and the cell size,
  the multiplier and the palette are valid), the focal block is drawn, at a position
  \<open>(x, y)\<close> with \<open>0 \<le> x \<le> (num_rows - multiplier) * square_size\<close> and
  \<open>0 \<le> y \<le> (num_cols - multiplier) * square_size\<close>, so that its square of side
  \<open>multiplier * square_size\<close> stays inside the grid.
\<close>

theorem focal_block_footprint:
  assumes "multiplier \<le> num_rows" and "multiplier \<le> num_cols"
    and "0 < multiplier" and "0 < square_size"
    and "2 \<le> length (heap s color_palette)"
  shows "\<exists>x y cls bg items.
           fst (generate_big_block num_rows num_cols square_size color_palette block_styles
                  multiplier s) = Inr () \<and>
           elements (dwg (snd (generate_big_block num_rows num_cols square_size color_palette
                                 block_styles multiplier s))) =
             elements (dwg s) @
               [Group (Some cls) None
                  (Rect (real_of_int x, real_of_int y)
                        (real_of_int (multiplier * square_size),
                         real_of_int (multiplier * square_size)) bg # items)] \<and>
           0 \<le> x \<and> x \<le> (num_rows - multiplier) * square_size \<and>
           0 \<le> y \<and> y \<le> (num_cols - multiplier) * square_size \<and>
           x + multiplier * square_size \<le> num_rows * square_size \<and>
           y + multiplier * square_size \<le> num_cols * square_size"
proof -
  let ?run = "generate_big_block num_rows num_cols square_size color_palette block_styles
                multiplier s"
  obtain rx ry name f and cs :: colors and s1 where
    rx: "0 \<le> rx" "rx \<le> num_rows - multiplier" and
    ry: "0 \<le> ry" "ry \<le> num_cols - multiplier" and
    f: "dict_getitem big_style_map name = Inr f" and d: "dwg s1 = dwg s" and
    run: "?run = f (rx * square_size) (ry * square_size) (multiplier * square_size)
                   (foreground cs) (background cs) s1"
    using generate_big_block_draws[OF assms(5) assms(1) assms(2), of block_styles square_size]
    by blast
  have nz: "multiplier * square_size \<noteq> 0" using assms(3,4) by simp
  have ok: "fst ?run = Inr ()"
    unfolding run by (rule big_style_ok[OF f nz])
  obtain r s' where rs: "?run = (r, s')" by (cases ?run)
  with ok have r: "r = Inr ()" by simp
  from big_style_any[OF f, of "rx * square_size" "ry * square_size" "multiplier * square_size"
      "foreground cs" "background cs" s1 r s'] run rs r
  obtain cls where
    b: "block_added cls (rx * square_size) (ry * square_size) (multiplier * square_size)
          (background cs) s1 s'"
    by auto
  then obtain items where items:
    "elements (dwg s') = elements (dwg s) @
       [Group (Some cls) None
          (Rect (real_of_int (rx * square_size), real_of_int (ry * square_size))
                (real_of_int (multiplier * square_size),
                 real_of_int (multiplier * square_size)) (background cs) # items)]"
    using d by (auto simp: block_added_def)
  have x0: "0 \<le> rx * square_size" using rx(1) assms(4) by simp
  have x1: "rx * square_size \<le> (num_rows - multiplier) * square_size"
    using rx(2) assms(4) by (simp add: mult_right_mono)
  have y0: "0 \<le> ry * square_size" using ry(1) assms(4) by simp
  have y1: "ry * square_size \<le> (num_cols - multiplier) * square_size"
    using ry(2) assms(4) by (simp add: mult_right_mono)
  have x2: "rx * square_size + multiplier * square_size \<le> num_rows * square_size"
    using x1 by (simp add: algebra_simps)
  have y2: "ry * square_size + multiplier * square_size \<le> num_cols * square_size"
    using y1 by (simp add: algebra_simps)
  show ?thesis
    apply (rule exI[of _ "rx * square_size"], rule exI[of _ "ry * square_size"],
        rule exI[of _ cls], rule exI[of _ "background cs"], rule exI[of _ items])
    using ok items rs x0 x1 y0 y1 x2 y2 by simp
qed

theorem focal_block_footprint_witness:
  "\<exists>x y cls bg items.
     fst (generate_big_block 4 5 100 0 all_styles 3 (example_world (sconst 0) two_colours)) =
       Inr () \<and>
     elements (dwg (snd (generate_big_block 4 5 100 0 all_styles 3
                           (example_world (sconst 0) two_colours)))) =
       elements (dwg (example_world (sconst 0) two_colours)) @
         [Group (Some cls) None
            (Rect (real_of_int x, real_of_int y) (real_of_int (3 * 100), real_of_int (3 * 100)) bg
             # items)] \<and>
     0 \<le> x \<and> x \<le> (4 - 3) * 100 \<and> 0 \<le> y \<and> y \<le> (5 - 3) * 100 \<and>
     x + 3 * 100 \<le> 4 * 100 \<and> y + 3 * 100 \<le> 5 * 100"
  by (rule focal_block_footprint) (simp_all add: example_world_def two_colours_def)

section \<open>Sampling a region of the image\<close>

lemma sort_pair:
  fixes a b :: "'a::linorder"
  shows "sort [a, b] = (if a \<le> b then [a, b] else [b, a])"
  by simp

lemma sample_image_region_run:
  assumes resize: "image_resize env (image_crop env img (x, y, x + width, y + height)) (50, 50) =
                     Inr region"
    and km: "kmeans_centers env 2 (image_pixels env (to_rgb_mode env region)) = Inr [c1, c2]"
  shows "sample_image_region env img x y width height 2 s =
           (if (bright c1, centroid_hex c1) \<le> (bright c2, centroid_hex c2)
            then (Inr \<lparr>foreground = centroid_hex c1, background = centroid_hex c2\<rparr>, s)
            else (Inr \<lparr>foreground = centroid_hex c2, background = centroid_hex c1\<rparr>, s))"
  by (simp add: sample_image_region_def Let_def resize km getitem_def norm_index_def return_def
      del: sort_key_simps)
    (simp add: sort_pair)

text \<open>
  Claim C3. \<^verbatim>\<open>sample_image_region\<close> asks the clustering for two clusters of the pixels of
  the region (cropped, resized to 50 by 50 and converted to RGB), scores each centroid
  \<open>(r, g, b)\<close> by the luma \<open>0.299 r + 0.587 g + 0.114 b\<close>, and returns the centroid with the
  lower score as the foreground and the one with the higher score as the background, each
  as the hexadecimal colour of its truncated channels. With equal scores the two are
  ordered by their hexadecimal strings. The scores are compared as real numbers; the proof
  uses nothing of them but their order.
\<close>

theorem sample_image_region_darker_first:
  assumes resize: "image_resize env (image_crop env img (x, y, x + width, y + height)) (50, 50) =
                     Inr region"
    and km: "kmeans_centers env 2 (image_pixels env (to_rgb_mode env region)) = Inr [c1, c2]"
  shows "\<exists>lo hi. ((lo, hi) = (c1, c2) \<or> (lo, hi) = (c2, c1)) \<and>
           bright lo \<le> bright hi \<and>
           (bright c1 < bright c2 \<longrightarrow> lo = c1 \<and> hi = c2) \<and>
           (bright c2 < bright c1 \<longrightarrow> lo = c2 \<and> hi = c1) \<and>
           bright (r, g, b) = 0.299 * r + 0.587 * g + 0.114 * b \<and>
           sample_image_region env img x y width height 2 s =
             (Inr \<lparr>foreground = centroid_hex lo, background = centroid_hex hi\<rparr>, s)"
proof -
  have luma: "bright (r, g, b) = 0.299 * r + 0.587 * g + 0.114 * b"
    by (simp add: bright_def)
  show ?thesis
  proof (cases "(bright c1, centroid_hex c1) \<le> (bright c2, centroid_hex c2)")
    case True
    then have le: "bright c1 \<le> bright c2" by (auto simp: less_eq_prod_def)
    have run: "sample_image_region env img x y width height 2 s =
        (Inr \<lparr>foreground = centroid_hex c1, background = centroid_hex c2\<rparr>, s)"
      by (simp only: sample_image_region_run[OF resize km] True if_True)
    show ?thesis
      apply (rule exI[of _ c1], rule exI[of _ c2])
      using le run luma by simp
  next
    case False
    then have le: "bright c2 \<le> bright c1" by (auto simp: less_eq_prod_def)
    have run: "sample_image_region env img x y width height 2 s =
        (Inr \<lparr>foreground = centroid_hex c2, background = centroid_hex c1\<rparr>, s)"
      by (simp only: sample_image_region_run[OF resize km] False if_False)
    show ?thesis
      apply (rule exI[of _ c2], rule exI[of _ c1])
      using le run luma by simp
  qed
qed

lemma example_env2_simps:
  "image_resize example_env2 img sz = Inr img"
  "image_crop example_env2 img box = img"
  "image_mode example_env2 img = ''RGB''"
  "image_pixels example_env2 img = img"
  "kmeans_centers example_env2 k px =
     Inr (map (\<lambda>(r, g, b). (real_of_int r, real_of_int g, real_of_int b)) (take (nat k) px))"
  by (simp_all add: example_env2_def env.defs env2.defs)

theorem sample_image_region_darker_first_witness:
  "sample_image_region example_env2 [(200, 200, 200), (10, 20, 30)] 0 0 10 10 2
     (example_world (sconst 0) two_colours) =
   (Inr \<lparr>foreground = ''#0a141e'', background = ''#c8c8c8''\<rparr>,
    example_world (sconst 0) two_colours)"
proof -
  let ?img = "[(200, 200, 200), (10, 20, 30)] :: pixels"
  let ?c1 = "(200, 200, 200) :: triple" and ?c2 = "(10, 20, 30) :: triple"
  let ?w = "example_world (sconst 0) two_colours"
  have resize: "image_resize example_env2 (image_crop example_env2 ?img (0, 0, 0 + 10, 0 + 10))
                  (50, 50) = Inr ?img"
    by (simp add: example_env2_simps)
  have km: "kmeans_centers example_env2 2 (image_pixels example_env2 (to_rgb_mode example_env2 ?img)) =
              Inr [?c1, ?c2]"
    by (simp add: example_env2_simps to_rgb_mode_def)
  have dark: "bright ?c2 < bright ?c1" by (simp add: bright_def)
  have h1: "centroid_hex ?c1 = ''#c8c8c8''"
    by (simp add: centroid_hex_def rgb_hex_def hex02_def trunc_def digits16.simps)
  have h2: "centroid_hex ?c2 = ''#0a141e''"
    by (simp add: centroid_hex_def rgb_hex_def hex02_def trunc_def digits16.simps)
  from sample_image_region_darker_first[OF resize km, of 0 0 0 ?w]
  show ?thesis
  proof (elim exE conjE)
    fix lo hi
    assume sel: "bright ?c2 < bright ?c1 \<longrightarrow> lo = ?c2 \<and> hi = ?c1"
      and run: "sample_image_region example_env2 ?img 0 0 10 10 2 ?w =
            (Inr \<lparr>foreground = centroid_hex lo, background = centroid_hex hi\<rparr>, ?w)"
    from sel dark have lo: "lo = ?c2" and hi: "hi = ?c1" by simp_all
    show ?thesis by (simp only: run lo hi h1 h2)
  qed
qed

section \<open>The whole run\<close>

lemma yields_bindM:
  assumes "\<And>a. yields_size sz (f a)"
  shows "yields_size sz (bindM m f)"
proof -
  have "doc_size (dwg (snd (bindM m f s))) = sz" if ok: "fst (bindM m f s) = Inr b" for s b
  proof (cases "m s")
    case (Pair r s')
    show ?thesis
    proof (cases r)
      case (Inl e)
      with Pair ok show ?thesis by (simp add: bindM_def)
    next
      case (Inr a)
      with Pair have "bindM m f s = f a s'" by (simp add: bindM_def)
      with assms[of a] ok show ?thesis by (simp add: yields_size_def)
    qed
  qed
  then show ?thesis by (simp add: yields_size_def)
qed

lemma yields_new_drawing:
  assumes "keeps_size rest"
  shows "yields_size sz (bindM (new_drawing name sz prof) (\<lambda>_. rest))"
  using assms by (simp add: yields_size_def keeps_size_def bindM_def new_drawing_def)

lemma bindM_return_fun: "bindM (return a) f = f a"
  by (rule ext) (simp add: bindM_def return_def)

lemma keeps_hex_to_rgb [keeps]: "keeps_size (hex_to_rgb c)"
  by (auto simp: hex_to_rgb_def intro!: keeps)

lemma keeps_create_background_colors [keeps]: "keeps_size (create_background_colors env p)"
  by (auto simp: create_background_colors_def Let_def split: prod.splits intro!: keeps)

lemma big_style_map_cases:
  assumes "dict_getitem big_style_map name = Inr f"
  shows "f \<in> {draw_circle, draw_opposite_circles, draw_cross, draw_half_square,
     draw_diagonal_square, draw_quarter_circle, draw_letter_block}"
  using assms by (auto simp: dict_getitem_def big_style_map_def split: if_splits)

lemma keeps_big_style_map [keeps]:
  "keeps_size (bindM (lift (dict_getitem big_style_map name)) (\<lambda>f. f x y sz fg bg))"
proof (cases "dict_getitem big_style_map name")
  case (Inl e)
  then show ?thesis by (simp add: keeps_size_def)
next
  case (Inr f)
  from big_style_map_cases[OF this] have "keeps_size (f x y sz fg bg)"
    by (auto intro: keeps_draw)
  with Inr show ?thesis by (simp add: keeps_size_def)
qed

lemma keeps_generate_big_block [keeps]:
  "keeps_size (generate_big_block r c sz p bs m)"
  by (auto simp: generate_big_block_def Let_def intro!: keeps)

lemma keeps_sample_image_region [keeps]:
  "keeps_size (sample_image_region env img x y w h k)"
  by (auto simp: sample_image_region_def Let_def intro!: keeps)

lemma keeps_generate_composition_grid [keeps]:
  "keeps_size (generate_composition_grid env path r c sz bs)"
  by (auto simp: generate_composition_grid_def Let_def intro!: keeps)

lemma main_yields_size:
  assumes "arg_rows args = Some r" and "arg_cols args = Some c"
  shows "yields_size (str_int (r * arg_square_size args) @ ''px'',
                      str_int (c * arg_square_size args) @ ''px'') (main env args)"
  unfolding main_def Let_def assms option.case bindM_return_fun
  apply ((rule yields_new_drawing | rule yields_bindM)+)
  apply (auto split: option.splits intro!: keeps)
  done

lemma main2_yields_size:
  assumes "arg_rows args = Some r" and "arg_cols args = Some c"
  shows "yields_size (str_int (r * arg_square_size args) @ ''px'',
                      str_int (c * arg_square_size args) @ ''px'') (main2 env args)"
  unfolding main2_def Let_def assms option.case bindM_return_fun
  apply ((rule yields_new_drawing | rule yields_bindM)+)
  apply (auto split: option.splits intro!: keeps)
  done

lemmas eval_defs =
  bindM_def lift_def return_def Let_def
  list_getitem_def list_read_def list_copy_def list_new_def list_len_def list_pop_def
  getitem_def norm_index_def random_randint_def random_choice_def random_random_def
  dwg_add_def defs_add_def new_drawing_def

lemmas colour_defs =
  create_background_colors_def lstrip_hash_def hex_to_rgb_def
  int16_def strip_def is_space_def hex_value_def mix_def to_unit_def to_bytes_def trunc_def
  colorsys_rgb_to_hls_def colorsys_hls_to_rgb_def rgb_hex_def hex02_def digits16.simps

lemma main_example:
  "fst (main example_env grid_args (start_world (sconst 0))) = Inr ()"
  by (simp add: main_def grid_args_def start_world_def example_env_def two_colours_def
      load_color_palettes_def truthy_def all_styles_def eval_defs colour_defs
      generate_grid_def py_range_def upt_rec generate_little_block_def get_two_colors_def
      style_map_def dict_contains_def dict_keys_def dict_getitem_def draw_circle_def
      str_int_def digits10.simps blank_def)

lemma main_example_size:
  "doc_size (dwg (snd (main example_env grid_args (start_world (sconst 0))))) =
     (''10px'', ''20px'')"
proof -
  have "yields_size (str_int (1 * arg_square_size grid_args) @ ''px'',
                     str_int (2 * arg_square_size grid_args) @ ''px'') (main example_env grid_args)"
    by (rule main_yields_size) (simp_all add: grid_args_def)
  with main_example show ?thesis
    by (simp add: yields_size_def grid_args_def str_int_def digits10.simps)
qed

lemma main2_example:
  "fst (main2 example_env2 composition_args (start_world (sconst 0))) = Inr ()"
  by (simp add: main2_def composition_args_def args.defs args2.defs grid_args_def start_world_def
      example_env2_def env.defs env2.defs example_env_def two_colours_def
      load_color_palettes_def truthy_def all_styles_def eval_defs colour_defs
      generate_composition_grid_def sample_image_region_def to_rgb_mode_def centroid_hex_def
      bright_def py_range_def upt_rec
      style_map_def dict_contains_def dict_keys_def dict_getitem_def draw_circle_def
      str_int_def digits10.simps blank_def)

lemma main2_example_size:
  "doc_size (dwg (snd (main2 example_env2 composition_args (start_world (sconst 0))))) =
     (''10px'', ''20px'')"
proof -
  have "yields_size (str_int (1 * arg_square_size composition_args) @ ''px'',
                     str_int (2 * arg_square_size composition_args) @ ''px'')
          (main2 example_env2 composition_args)"
    by (rule main2_yields_size)
      (simp_all add: composition_args_def grid_args_def args.defs args2.defs)
  with main2_example show ?thesis
    by (simp add: yields_size_def composition_args_def grid_args_def args.defs args2.defs
        str_int_def digits10.simps)
qed

text \<open>
  Claim C2, as stated, gives the document the width \<open>cols * cellSize\<close> and the height
  \<open>rows * cellSize\<close>. Both programs compute
  \<^verbatim>\<open>svg_width = num_rows * square_size\<close> and \<^verbatim>\<open>svg_height = num_cols * square_size\<close>,
  in keeping with the cells, which they place at \<open>x = i * square_size\<close> for the row
  index \<open>i\<close>. For 1 row, 2 columns and cells of 10 pixels the declared size is 10px by
  20px, not 20px by 10px.
\<close>

theorem declared_size_counterexample:
  "arg_rows grid_args = Some 1 \<and> arg_cols grid_args = Some 2 \<and> arg_square_size grid_args = 10 \<and>
   fst (main example_env grid_args (start_world (sconst 0))) = Inr () \<and>
   doc_size (dwg (snd (main example_env grid_args (start_world (sconst 0))))) =
     (''10px'', ''20px'') \<and>
   doc_size (dwg (snd (main example_env grid_args (start_world (sconst 0))))) \<noteq>
     (str_int (2 * 10) @ ''px'', str_int (1 * 10) @ ''px'')"
  using main_example main_example_size
  by (simp add: grid_args_def str_int_def digits10.simps)

text \<open>
  Claim C2, amended. For every grid given on the command line, the document that either
  program generates declares the width \<open>rows * cellSize\<close> and the height
  \<open>cols * cellSize\<close>, in pixels.
\<close>

theorem declared_size:
  "(arg_rows args = Some r \<and> arg_cols args = Some c \<and> fst (main env args s) = Inr () \<longrightarrow>
      doc_size (dwg (snd (main env args s))) =
        (str_int (r * arg_square_size args) @ ''px'',
         str_int (c * arg_square_size args) @ ''px'')) \<and>
   (arg_rows args2 = Some r2 \<and> arg_cols args2 = Some c2 \<and>
    fst (main2 env2 args2 s2) = Inr () \<longrightarrow>
      doc_size (dwg (snd (main2 env2 args2 s2))) =
        (str_int (r2 * arg_square_size args2) @ ''px'',
         str_int (c2 * arg_square_size args2) @ ''px''))"
  using main_yields_size[where args = args and r = r and c = c and env = env]
    main2_yields_size[where args = args2 and r = r2 and c = c2 and env = env2]
  by (auto simp: yields_size_def)

theorem declared_size_witness:
  "doc_size (dwg (snd (main example_env grid_args (start_world (sconst 0))))) =
     (str_int (1 * 10) @ ''px'', str_int (2 * 10) @ ''px'') \<and>
   doc_size (dwg (snd (main2 example_env2 composition_args (start_world (sconst 0))))) =
     (str_int (1 * 10) @ ''px'', str_int (2 * 10) @ ''px'')"
  using declared_size[where args = grid_args and r = 1 and c = 2 and env = example_env
      and s = "start_world (sconst 0)" and ?args2.0 = composition_args and ?r2.0 = 1
      and ?c2.0 = 2 and ?env2.0 = example_env2 and ?s2.0 = "start_world (sconst 0)"]
    main_example main2_example
  by (simp add: composition_args_def grid_args_def args.defs args2.defs)

lemma seeded_start:
  assumes "arg_seed args = Some sd"
  shows "main env args (s\<lparr>rng := g\<rparr>) = main env args (s\<lparr>rng := random_seed env sd\<rparr>)"
proof -
  have "bindM (seed_rng env sd) f (s\<lparr>rng := g\<rparr>) =
        bindM (seed_rng env sd) f (s\<lparr>rng := random_seed env sd\<rparr>)" for f :: "unit \<Rightarrow> unit M"
    by (simp add: bindM_def seed_rng_def)
  then show ?thesis
    by (simp only: main_def assms option.case)
qed

lemma seeded_start2:
  assumes "arg_seed args = Some sd"
  shows "main2 env args (s\<lparr>rng := g\<rparr>) = main2 env args (s\<lparr>rng := random_seed env sd\<rparr>)"
proof -
  have "bindM (seed_rng env sd) f (s\<lparr>rng := g\<rparr>) =
        bindM (seed_rng env sd) f (s\<lparr>rng := random_seed env sd\<rparr>)" for f :: "unit \<Rightarrow> unit M"
    by (simp add: bindM_def seed_rng_def)
  then show ?thesis
    by (simp only: main2_def assms option.case)
qed

text \<open>
  Claim C8. Two runs with the same seed and the same configuration (arguments, palette
  catalogue, image and libraries, that is the same environment) make the same choices:
  whatever state the generator of each process starts in, the runs end with the same
  outcome and the same world, hence the same drawing, whose groups record in order the
  colours and style of every cell, the variant each style drew, and the position of the
  focal block. Both programs seed the generator before their first draw.
\<close>

theorem seeded_runs_agree:
  "(arg_seed args = Some sd \<longrightarrow>
      main env args (s\<lparr>rng := g1\<rparr>) = main env args (s\<lparr>rng := g2\<rparr>)) \<and>
   (arg_seed args2 = Some sd2 \<longrightarrow>
      main2 env2 args2 (s\<lparr>rng := g1\<rparr>) = main2 env2 args2 (s\<lparr>rng := g2\<rparr>))"
  using seeded_start[where args = args and sd = sd and env = env and s = s and g = g1]
    seeded_start[where args = args and sd = sd and env = env and s = s and g = g2]
    seeded_start2[where args = args2 and sd = sd2 and env = env2 and s = s and g = g1]
    seeded_start2[where args = args2 and sd = sd2 and env = env2 and s = s and g = g2]
  by simp

theorem seeded_runs_agree_witness:
  "main example_env (grid_args\<lparr>arg_seed := Some 42\<rparr>) (start_world (sconst 0)) =
   main example_env (grid_args\<lparr>arg_seed := Some 42\<rparr>) (start_world (sconst 1)) \<and>
   main2 example_env2 (composition_args\<lparr>arg_seed := Some 42\<rparr>) (start_world (sconst 0)) =
   main2 example_env2 (composition_args\<lparr>arg_seed := Some 42\<rparr>) (start_world (sconst 1))"
  using seeded_runs_agree[where args = "grid_args\<lparr>arg_seed := Some 42\<rparr>" and sd = 42
      and env = example_env and s = "start_world (sconst 0)" and ?g1.0 = "sconst 0"
      and ?g2.0 = "sconst 1" and ?args2.0 = "composition_args\<lparr>arg_seed := Some 42\<rparr>"
      and ?sd2.0 = 42 and ?env2.0 = example_env2]
  by (simp add: start_world_def)

text \<open>
  Without a seed the drawing does depend on the state the generator starts in.
\<close>

lemma unseeded_runs_differ:
  "dwg (snd (main example_env grid_args (start_world (sconst 0)))) \<noteq>
   dwg (snd (main example_env grid_args (start_world (sconst 1))))"
  by (simp add: main_def grid_args_def start_world_def example_env_def two_colours_def
      load_color_palettes_def truthy_def all_styles_def eval_defs colour_defs
      generate_grid_def py_range_def upt_rec generate_little_block_def get_two_colors_def
      style_map_def dict_contains_def dict_keys_def dict_getitem_def draw_circle_def
      draw_opposite_circles_def str_int_def digits10.simps blank_def)

end
